theory Spec2Isabelle
  imports Complex_Main
begin

section \<open>JavaScript values\<close>

text \<open>
  The server is a Node.js program. Values that cross its interfaces (request bodies,
  decoded service responses, response bodies) are JavaScript values. A number that is
  only passed on is held as a real; the arithmetic the server does on numbers is
  modelled on doubles, below.
\<close>

datatype jsval =
    JUndefined
  | JNull
  | JBool bool
  | JNum real
  | JStr string
  | JArr "jsval list"
  | JObj "(string \<times> jsval) list"

text \<open>The test \<^verbatim>\<open>!v\<close> of JavaScript is \<open>\<not> truthy v\<close>.\<close>

fun truthy :: "jsval \<Rightarrow> bool" where
  "truthy JUndefined = False"
| "truthy JNull = False"
| "truthy (JBool b) = b"
| "truthy (JNum x) = (x \<noteq> 0)"
| "truthy (JStr s) = (s \<noteq> [])"
| "truthy (JArr xs) = True"
| "truthy (JObj fs) = True"

text \<open>Reading a property of an object; a missing property reads as \<open>undefined\<close>.\<close>

definition js_get :: "(string \<times> jsval) list \<Rightarrow> string \<Rightarrow> jsval" where
  "js_get fs k = (case map_of fs k of None \<Rightarrow> JUndefined | Some v \<Rightarrow> v)"


text \<open>
  What a \<^verbatim>\<open>throw\<close> carries: a \<^verbatim>\<open>TypeError\<close> or \<^verbatim>\<open>SyntaxError\<close> object made by the
  runtime (their message texts depend on the engine and are not modelled), or any other
  value, \<open>null\<close> and \<open>undefined\<close> included.
\<close>

datatype js_exception = TypeError | SyntaxError | Thrown jsval

datatype 'a promise = Resolved 'a | Rejected js_exception

definition startsWith :: "string \<Rightarrow> string \<Rightarrow> bool" where
  "startsWith s p = (take (length p) s = p)"

text \<open>\<^verbatim>\<open>s.slice(a, b)\<close> for \<open>0 \<le> a \<le> b\<close>, and \<^verbatim>\<open>s.slice(-k)\<close>.\<close>

definition slice :: "nat \<Rightarrow> nat \<Rightarrow> string \<Rightarrow> string" where
  "slice a b s = take (b - a) (drop a s)"

definition slice_last :: "nat \<Rightarrow> string \<Rightarrow> string" where
  "slice_last k s = drop (length s - k) s"

section \<open>Risk analyzer\<close>

text \<open>
  The client of the external reasoning service. \<^verbatim>\<open>ai\<close> is \<open>null\<close> unless an API key is
  set and the SDK constructor succeeds; the analyzer also checks that the client has
  \<^verbatim>\<open>models\<close> and \<^verbatim>\<open>models.generateContent\<close>. A call either throws (or rejects
  with) some value or returns a response whose \<^verbatim>\<open>text\<close> may be undefined.
\<close>

record gen_request =
  req_model :: string
  req_role :: string
  req_prompt :: string
  req_responseMimeType :: string

record gen_response =
  response_text :: "string option"

record ai_models =
  generateContent :: "(gen_request \<Rightarrow> js_exception + gen_response) option"

record ai_client =
  models :: "ai_models option"


definition fallback_unavailable :: jsval where
  "fallback_unavailable = JObj
     [(''riskScore'', JStr ''50/100''),
      (''attackType'', JStr ''AI Unavailable''),
      (''rationale'', JStr ''Gemini API key missing or SDK not initialized. Using fallback analysis.'')]"

definition fallback_error :: jsval where
  "fallback_error = JObj
     [(''riskScore'', JStr ''50/100''),
      (''attackType'', JStr ''API Error/Unknown MEV''),
      (''rationale'', JStr ''AI risk analysis failed due to API error/quota limit. Proceed with caution.'')]"

definition build_prompt :: "string \<Rightarrow> string" where
  \<open>build_prompt tradeData =
     (if startsWith tradeData ''0xTx''
      then ''Simulate an MEV attack scenario targeting a typical raw transaction like ''
           @ tradeData
           @ ''. Provide a JSON object with: { "riskScore": "X/100", "attackType": "A single MEV type (Sandwich Attack, Front-Run, Liquidation Attack, Arbitrage Exploitation)", "rationale": "Brief, technical rationale for why this attack type is likely." }''
      else ''Analyze the potential MEV risk for this transaction description: "''
           @ tradeData
           @ ''". Assume this is a DEX trade. Output a JSON object with: { "riskScore": "X/100", "attackType": "The most likely MEV type this trade attracts", "rationale": "Brief analysis of the risk and potential value impact." }'')\<close>

definition gemini_request :: "string \<Rightarrow> gen_request" where
  "gemini_request tradeData =
     \<lparr>req_model = ''gemini-2.5-flash'', req_role = ''user'',
      req_prompt = build_prompt tradeData,
      req_responseMimeType = ''application/json''\<rparr>"

text \<open>The guard \<^verbatim>\<open>!ai || !ai.models || !ai.models.generateContent\<close>.\<close>

definition configured_call ::
  "ai_client option \<Rightarrow> (gen_request \<Rightarrow> js_exception + gen_response) option" where
  "configured_call ai =
     (case ai of
        None \<Rightarrow> None
      | Some client \<Rightarrow>
          (case models client of None \<Rightarrow> None | Some m \<Rightarrow> generateContent m))"

text \<open>
  \<^verbatim>\<open>JSON.parse\<close> applies to the string form of its argument, so an undefined
  \<^verbatim>\<open>response.text\<close> is parsed as the text \<^verbatim>\<open>undefined\<close>.
\<close>

definition text_argument :: "gen_response \<Rightarrow> string" where
  "text_argument response =
     (case response_text response of None \<Rightarrow> ''undefined'' | Some t \<Rightarrow> t)"

text \<open>
  The \<^verbatim>\<open>catch\<close> block first evaluates \<^verbatim>\<open>e.message\<close> for the log line. Reading a
  property of \<open>null\<close> or \<open>undefined\<close> raises a \<^verbatim>\<open>TypeError\<close>, and nothing encloses the
  block, so for such a thrown value the promise is rejected; for every other value the
  block returns the error fallback.
\<close>

definition message_readable :: "js_exception \<Rightarrow> bool" where
  "message_readable e = (e \<noteq> Thrown JUndefined \<and> e \<noteq> Thrown JNull)"

definition catch_block :: "js_exception \<Rightarrow> jsval promise" where
  "catch_block e = (if message_readable e then Resolved fallback_error else Rejected TypeError)"

text \<open>
  \<^verbatim>\<open>geminiRiskAnalyzer\<close>. \<^verbatim>\<open>JSON.parse\<close> belongs to the runtime and is a parameter:
  it returns the decoded value, or raises a \<^verbatim>\<open>SyntaxError\<close> (\<open>None\<close>). Calling
  \<^verbatim>\<open>startsWith\<close> on an argument that is not a string raises a \<^verbatim>\<open>TypeError\<close> before
  the \<^verbatim>\<open>try\<close> block, and the promise is rejected. Console output is not modelled.
\<close>

definition geminiRiskAnalyzer ::
  "(string \<Rightarrow> jsval option) \<Rightarrow> ai_client option \<Rightarrow> jsval \<Rightarrow> jsval promise" where
  "geminiRiskAnalyzer JSON_parse ai tradeData =
     (case tradeData of
        JStr s \<Rightarrow>
          (case configured_call ai of
             None \<Rightarrow> Resolved fallback_unavailable
           | Some call \<Rightarrow>
               (case call (gemini_request s) of
                  Inl e \<Rightarrow> catch_block e
                | Inr response \<Rightarrow>
                    (case JSON_parse (text_argument response) of
                       None \<Rightarrow> catch_block SyntaxError
                     | Some decoded \<Rightarrow> Resolved decoded)))
      | _ \<Rightarrow> Rejected TypeError)"


text \<open>
  The caller \<^verbatim>\<open>/api/simulate\<close> reads the number of a score as
  \<^verbatim>\<open>riskScore.split('/')[0]\<close>.
\<close>

definition score_number :: "string \<Rightarrow> string" where
  "score_number s = takeWhile (\<lambda>c. c \<noteq> CHR ''/'') s"


definition failing :: "js_exception \<Rightarrow> ai_client" where
  "failing e = \<lparr>models = Some \<lparr>generateContent = Some (\<lambda>r. Inl e)\<rparr>\<rparr>"


definition parse_sample :: "string \<Rightarrow> jsval option" where
  "parse_sample t =
     (if t = ''{}'' then Some (JObj [])
      else if t = ''42'' then Some (JNum 42)
      else None)"

section \<open>Persistence store\<close>

text \<open>
  The store is an SQLite database with the single table \<^verbatim>\<open>protected_trades\<close>, whose
  \<^verbatim>\<open>id\<close> column is \<^verbatim>\<open>INTEGER PRIMARY KEY AUTOINCREMENT\<close>. The database keeps the
  largest identifier it ever assigned in \<^verbatim>\<open>sqlite_sequence\<close>. A database where the
  table was never created has no table.
  Identifiers are natural numbers (the limit of SQLite's 64-bit row identifiers is not
  modelled). A row records in \<^verbatim>\<open>raw_tx\<close> the JavaScript value handed to the driver;
  the driver's conversion to the text of the column is not modelled.
\<close>

record trade_row =
  row_id :: nat
  raw_tx :: jsval
  protection_relay_tx_hash :: string
  row_status :: string
  submitted_at :: nat

text \<open>
  The handle of the driver. A statement given to a handle whose opening failed is queued
  by the driver and never run: its callback is never called. A statement given to a
  closed handle is answered through its callback with an error.
\<close>

datatype handle_state = Opened | OpenFailed | Closed

datatype 'a callback = NeverCalled | Called 'a

record database =
  handle :: handle_state
  protected_trades :: "trade_row list option"
  sqlite_sequence :: nat

datatype sql_statement =
    CreateTableIfNotExists
  | InsertTrade jsval string string

definition store_ready :: "database \<Rightarrow> bool" where
  "store_ready d = (handle d = Opened \<and> protected_trades d \<noteq> None)"

text \<open>
  \<^verbatim>\<open>new sqlite3.Database(DB_PATH, callback)\<close>: the handle over the content of the
  database file; the callback only logs an error.
\<close>

definition open_database :: "string option \<Rightarrow> database \<Rightarrow> database" where
  "open_database open_error disk =
     disk\<lparr>handle := (if open_error = None then Opened else OpenFailed)\<rparr>"

definition empty_disk :: database where
  "empty_disk = \<lparr>handle = Closed, protected_trades = None, sqlite_sequence = 0\<rparr>"

text \<open>
  Running a statement with its callback. On an opened handle the engine may fail a
  statement for a reason outside the model (\<open>fault\<close>: input/output error, locked file, a
  value the driver refuses); a failed statement changes nothing.
  \<^verbatim>\<open>CREATE TABLE IF NOT EXISTS\<close> leaves an existing table alone.
\<close>

definition exec_create ::
  "string option \<Rightarrow> database \<Rightarrow> string option callback \<times> database" where
  "exec_create fault d =
     (case handle d of
        OpenFailed \<Rightarrow> (NeverCalled, d)
      | Closed \<Rightarrow> (Called (Some ''SQLITE_MISUSE: Database is closed''), d)
      | Opened \<Rightarrow>
          (case fault of
             Some e \<Rightarrow> (Called (Some e), d)
           | None \<Rightarrow>
               (case protected_trades d of
                  Some rows \<Rightarrow> (Called None, d)
                | None \<Rightarrow> (Called None, d\<lparr>protected_trades := Some []\<rparr>))))"

text \<open>
  \<^verbatim>\<open>AUTOINCREMENT\<close>: the new identifier is one more than the largest identifier that
  ever existed in the table.
\<close>

definition largest_id :: "database \<Rightarrow> trade_row list \<Rightarrow> nat" where
  "largest_id d rows = fold max (map row_id rows) (sqlite_sequence d)"

definition exec_insert ::
  "string option \<Rightarrow> nat \<Rightarrow> jsval \<Rightarrow> string \<Rightarrow> string \<Rightarrow> database
     \<Rightarrow> (string + nat) callback \<times> database" where
  "exec_insert fault now raw hash st d =
     (case handle d of
        OpenFailed \<Rightarrow> (NeverCalled, d)
      | Closed \<Rightarrow> (Called (Inl ''SQLITE_MISUSE: Database is closed''), d)
      | Opened \<Rightarrow>
          (case fault of
             Some e \<Rightarrow> (Called (Inl e), d)
           | None \<Rightarrow>
               (case protected_trades d of
                  None \<Rightarrow> (Called (Inl ''SQLITE_ERROR: no such table: protected_trades''), d)
                | Some rows \<Rightarrow>
                    (let lastID = Suc (largest_id d rows);
                         row = \<lparr>row_id = lastID, raw_tx = raw,
                                protection_relay_tx_hash = hash, row_status = st,
                                submitted_at = now\<rparr>
                     in (Called (Inr lastID),
                         d\<lparr>protected_trades := Some (rows @ [row]),
                           sqlite_sequence := lastID\<rparr>)))))"

section \<open>Synthetic event generator\<close>

text \<open>Decimal rendering of a number that holds an integer that is not negative.\<close>

definition digit_char :: "nat \<Rightarrow> char" where
  "digit_char n = char_of (48 + n)"

function dec :: "nat \<Rightarrow> string" where
  "dec n = (if n < 10 then [digit_char n] else dec (n div 10) @ [digit_char (n mod 10)])"
  by pat_completeness auto
termination
  by (relation "measure (\<lambda>n. n)") auto

declare dec.simps [simp del]

subsection \<open>Arithmetic on doubles\<close>

text \<open>
  JavaScript numbers are IEEE 754 doubles. Every finite double that is not negative is
  \<open>n / 2 ^ k\<close> for naturals \<open>n < 2 ^ 53\<close> and \<open>k \<le> 1074\<close>, or a larger integer whose value has
  53 significant bits. The result of an operation is the exact result rounded to the
  nearest double, ties to the even significand. For an exact result \<open>n / 2 ^ k\<close> with
  \<open>k \<le> 1074\<close> (below the overflow threshold) this keeps the denominator and rounds the
  numerator to 53 significant bits: \<open>excess_bits n\<close> is the number of bits of \<open>n\<close> beyond
  53, and \<open>fl n\<close> is the numerator of the rounded result.
\<close>

function excess_bits :: "nat \<Rightarrow> nat" where
  "excess_bits n = (if n < 2 ^ 53 then 0 else Suc (excess_bits (n div 2)))"
  by pat_completeness auto
termination
proof (relation "measure (\<lambda>n. n)")
  show "wf (measure (\<lambda>n. n))" by simp
next
  fix n :: nat
  assume "\<not> n < 2 ^ 53"
  then have "0 < n" by (cases n) simp_all
  then have "n div 2 < n" by simp
  then show "(n div 2, n) \<in> measure (\<lambda>n. n)" by simp
qed

declare excess_bits.simps [simp del]

definition round_even :: "nat \<Rightarrow> nat \<Rightarrow> nat" where
  "round_even n s =
     (if s = 0 then n
      else (let q = n div 2 ^ s; rem = n mod 2 ^ s; half = 2 ^ (s - 1)
            in (if half < rem \<or> (rem = half \<and> odd q) then q + 1 else q) * 2 ^ s))"

definition fl :: "nat \<Rightarrow> nat" where
  "fl n = round_even n (excess_bits n)"

text \<open>
  A result of \<^verbatim>\<open>Math.random()\<close>: a double \<open>r\<close> with \<open>0 \<le> r < 1\<close>, that is
  \<open>mantissa / 2 ^ scale\<close> with \<open>mantissa < 2 ^ 53\<close> and \<open>53 \<le> scale \<le> 1074\<close>.
\<close>

record unit_double =
  mantissa :: nat
  scale :: nat

definition valid_unit :: "unit_double \<Rightarrow> bool" where
  "valid_unit r = (mantissa r < 2 ^ 53 \<and> 53 \<le> scale r \<and> scale r \<le> 1074)"

text \<open>
  A double is held as a numerator over a power of two. \<^verbatim>\<open>r * c\<close> for a random \<open>r\<close> and a
  positive integer constant \<open>c\<close>, \<^verbatim>\<open>x + i\<close> for an integer \<open>i\<close>, and \<^verbatim>\<open>Math.floor\<close>.
\<close>

definition js_times :: "unit_double \<Rightarrow> nat \<Rightarrow> nat \<times> nat" where
  "js_times r c = (fl (mantissa r * c), scale r)"

definition js_plus :: "nat \<times> nat \<Rightarrow> nat \<Rightarrow> nat \<times> nat" where
  "js_plus x i = (fl (fst x + i * 2 ^ snd x), snd x)"

definition Math_floor :: "nat \<times> nat \<Rightarrow> nat" where
  "Math_floor x = fst x div 2 ^ snd x"

text \<open>
  \<^verbatim>\<open>x.toFixed(4)\<close>: the integer \<open>t\<close> nearest to \<open>x * 10000\<close>, the larger one at a tie,
  printed with four decimals.
\<close>

definition pad4 :: "string \<Rightarrow> string" where
  "pad4 s = replicate (4 - length s) CHR ''0'' @ s"

definition toFixed4 :: "nat \<times> nat \<Rightarrow> string" where
  "toFixed4 x =
     (let t = (2 * fst x * 10000 + 2 ^ snd x) div 2 ^ (snd x + 1)
      in dec (t div 10000) @ ''.'' @ pad4 (dec (t mod 10000)))"

subsection \<open>The generator\<close>

definition MEV_ATTACK_TYPES :: "string list" where
  "MEV_ATTACK_TYPES =
     [''Sandwich Attack'', ''Front-Run'', ''Arbitrage Exploitation'', ''Liquidation Attack'']"

definition PRIVATE_MEMPOOL_ENABLED :: bool where
  "PRIVATE_MEMPOOL_ENABLED = True"

text \<open>Indexing an array; out of range reads as \<open>undefined\<close>, printed \<^verbatim>\<open>undefined\<close>.\<close>

definition js_index :: "string list \<Rightarrow> nat \<Rightarrow> string option" where
  "js_index xs i = (if i < length xs then Some (xs ! i) else None)"

definition template_string :: "string option \<Rightarrow> string" where
  "template_string v = (case v of None \<Rightarrow> ''undefined'' | Some s \<Rightarrow> s)"

text \<open>
  What one call of \<^verbatim>\<open>generateLocalAttack\<close> draws from its environment: four results
  of \<^verbatim>\<open>Math.random()\<close> (the first already rendered by \<^verbatim>\<open>toString(16)\<close>), the clock
  rendered by \<^verbatim>\<open>Date.now().toString()\<close>, and the local time string.
\<close>

record draws =
  random_hex :: string
  now_string :: string
  random_method :: unit_double
  random_value :: unit_double
  random_risk :: unit_double
  time_string :: string

record attack_event =
  ev_id :: nat
  ev_transaction :: string
  ev_method :: "string option"
  ev_value :: string
  ev_riskScore :: string
  ev_rationale :: string
  ev_status :: string
  ev_timestamp :: string

text \<open>\<^verbatim>\<open>Math.floor(Math.random() * 50) + 50\<close>.\<close>

definition risk_value :: "unit_double \<Rightarrow> nat" where
  "risk_value r = Math_floor (js_times r 50) + 50"

text \<open>
  \<^verbatim>\<open>generateLocalAttack\<close>: increments the process-wide counter, then builds the event.
  The counter is a JavaScript number holding an integer, and \<^verbatim>\<open>attackCounter++\<close>
  stores the double nearest to the counter plus one.
\<close>

definition generateLocalAttack :: "draws \<Rightarrow> nat \<Rightarrow> attack_event \<times> nat" where
  "generateLocalAttack env attackCounter =
     (let counter = fl (attackCounter + 1);
          rawTxMock = ''0xTx'' @ slice 2 10 (random_hex env) @ slice_last 4 (now_string env);
          attackMethod = js_index MEV_ATTACK_TYPES
                           (Math_floor (js_times (random_method env) (length MEV_ATTACK_TYPES)))
      in (\<lparr>ev_id = counter,
           ev_transaction = slice 0 10 rawTxMock @ ''...'',
           ev_method = attackMethod,
           ev_value = toFixed4 (js_plus (js_times (random_value env) 15) 1) @ '' ETH'',
           ev_riskScore = dec (risk_value (random_risk env)) @ ''/100'',
           ev_rationale = ''Locally simulated. Attacker is monitoring ''
                          @ template_string attackMethod @ '' opportunities.'',
           ev_status = ''Local Simulation'',
           ev_timestamp = time_string env\<rparr>,
          counter))"

section \<open>Server state, broadcast hub and request handlers\<close>

text \<open>
  A connected socket receives what the server emits to it. Socket identifiers are
  allocated by the transport; a record is kept of every session, also after it went
  offline, with all that was emitted to it.
\<close>

datatype payload = StatusMessage string | AttackMessage attack_event

record client =
  socket_id :: nat
  online :: bool
  received :: "(string \<times> payload) list"

text \<open>
  \<open>store_calls\<close> lists the statements the server handed to the database handle, in
  order: it records the attempts, whether they succeeded or not.
\<close>

record server =
  db :: database
  store_calls :: "sql_statement list"
  listening :: bool
  exited :: "int option"
  attackCounter :: nat
  clients :: "client list"
  next_socket :: nat

record http_response =
  status_code :: nat
  body :: jsval

definition status_message :: string where
  "status_message =
     ''Connected to MEV-Shield server. Private Mempool Status: ''
     @ (if PRIVATE_MEMPOOL_ENABLED then ''Active (private mempool)'' else ''Inactive'')
     @ ''.''"

text \<open>The handler of \<^verbatim>\<open>io.on('connection')\<close> and the handler of \<^verbatim>\<open>disconnect\<close>.\<close>

definition on_connection :: "server \<Rightarrow> server" where
  "on_connection s =
     s\<lparr>clients := clients s @
          [\<lparr>socket_id = next_socket s, online = True,
            received = [(''STATUS'', StatusMessage status_message)]\<rparr>],
       next_socket := next_socket s + 1\<rparr>"

definition on_disconnect :: "nat \<Rightarrow> server \<Rightarrow> server" where
  "on_disconnect sid s =
     s\<lparr>clients := map (\<lambda>c. if socket_id c = sid then c\<lparr>online := False\<rparr> else c) (clients s)\<rparr>"

text \<open>\<^verbatim>\<open>io.emit\<close> delivers to every socket that is connected.\<close>

definition io_emit :: "string \<Rightarrow> payload \<Rightarrow> server \<Rightarrow> server" where
  "io_emit name p s =
     s\<lparr>clients := map (\<lambda>c. if online c then c\<lparr>received := received c @ [(name, p)]\<rparr> else c)
                       (clients s)\<rparr>"

definition broadcastAttack :: "draws \<Rightarrow> server \<Rightarrow> server" where
  "broadcastAttack env s =
     (case generateLocalAttack env (attackCounter s) of
        (attackMessage, counter) \<Rightarrow>
          io_emit ''new_attack'' (AttackMessage attackMessage) (s\<lparr>attackCounter := counter\<rparr>))"

text \<open>
  \<^verbatim>\<open>initDb\<close>: one \<^verbatim>\<open>CREATE TABLE IF NOT EXISTS\<close>; its callback logs the outcome and,
  under \<^verbatim>\<open>--init-db\<close>, closes the handle and calls \<^verbatim>\<open>process.exit(0)\<close>. When the
  callback is never called, neither happens. \<open>exited\<close> is the code given to
  \<^verbatim>\<open>process.exit\<close>, once it was called.
\<close>

definition initDb :: "string list \<Rightarrow> string option \<Rightarrow> server \<Rightarrow> server" where
  "initDb argv fault s =
     (case exec_create fault (db s) of
        (outcome, d) \<Rightarrow>
          (let s1 = s\<lparr>db := d, store_calls := store_calls s @ [CreateTableIfNotExists]\<rparr>
           in case outcome of
                NeverCalled \<Rightarrow> s1
              | Called err \<Rightarrow>
                  if ''--init-db'' \<in> set argv
                  then s1\<lparr>db := d\<lparr>handle := Closed\<rparr>, exited := Some 0\<rparr>
                  else s1))"

text \<open>
  The start of the process: open the database file, run \<^verbatim>\<open>initDb\<close>, and, unless
  started with \<^verbatim>\<open>--init-db\<close>, \<^verbatim>\<open>server.listen\<close>. Neither the callback of the open nor
  the callback of the table creation stops the process on an error.
\<close>

definition startup :: "string list \<Rightarrow> database \<Rightarrow> string option \<Rightarrow> string option \<Rightarrow> server" where
  "startup argv disk open_error create_fault =
     (let s0 = \<lparr>db = open_database open_error disk, store_calls = [], listening = False,
                exited = None, attackCounter = 0, clients = [], next_socket = 0\<rparr>
      in if ''--init-db'' \<in> set argv
         then initDb argv create_fault s0
         else (initDb argv create_fault s0)\<lparr>listening := True\<rparr>)"

text \<open>
  \<^verbatim>\<open>POST /api/protect\<close>. \<open>req_body\<close> is the decoded request object, \<open>random16\<close> is
  \<^verbatim>\<open>Math.random().toString(16)\<close>, \<open>fault\<close> and \<open>now\<close> are the engine's fault (if any) and
  clock when the insert runs. Both responses to an accepted submission are sent from the
  callback of the insert: when that callback is never called, no response is ever sent
  (\<open>None\<close>).
\<close>

definition bad_request :: http_response where
  "bad_request =
     \<lparr>status_code = 400,
      body = JObj [(''success'', JBool False),
                   (''message'', JStr ''Raw transaction data is required.'')]\<rparr>"

definition database_error :: http_response where
  "database_error =
     \<lparr>status_code = 500,
      body = JObj [(''success'', JBool False),
                   (''message'', JStr ''Database error while logging trade.'')]\<rparr>"

definition logged :: "string \<Rightarrow> nat \<Rightarrow> http_response" where
  "logged mockTxHash lastID =
     \<lparr>status_code = 200,
      body = JObj [(''success'', JBool True),
                   (''message'', JStr ''Trade successfully logged to Private MEV-Protection Relay.''),
                   (''txHash'', JStr mockTxHash),
                   (''dbId'', JNum (real lastID))]\<rparr>"

definition mock_hash :: "string \<Rightarrow> string" where
  "mock_hash random16 = ''0xsim-log-'' @ slice 2 10 random16"

definition protect ::
  "string \<Rightarrow> string option \<Rightarrow> nat \<Rightarrow> (string \<times> jsval) list \<Rightarrow> server
     \<Rightarrow> http_response option \<times> server" where
  "protect random16 fault now req_body s =
     (let rawTransaction = js_get req_body ''rawTransaction'';
          mockTxHash = mock_hash random16;
          status = ''Submitted_Protected''
      in if \<not> truthy rawTransaction then (Some bad_request, s)
         else (case exec_insert fault now rawTransaction mockTxHash status (db s) of
                 (outcome, d) \<Rightarrow>
                   (let s1 = s\<lparr>db := d,
                               store_calls := store_calls s
                                 @ [InsertTrade rawTransaction mockTxHash status]\<rparr>
                    in case outcome of
                         NeverCalled \<Rightarrow> (None, s1)
                       | Called (Inl err) \<Rightarrow> (Some database_error, s1)
                       | Called (Inr lastID) \<Rightarrow> (Some (logged mockTxHash lastID), s1))))"

text \<open>\<^verbatim>\<open>POST /api/trigger-attack\<close>.\<close>

definition trigger_attack :: "draws \<Rightarrow> server \<Rightarrow> http_response \<times> server" where
  "trigger_attack env s =
     (\<lparr>status_code = 200,
       body = JObj [(''success'', JBool True),
                    (''message'', JStr ''Simulated attack broadcast initiated.'')]\<rparr>,
      broadcastAttack env s)"

text \<open>
  What reaches the running server. Nothing reaches a process that does not listen or
  has exited.
\<close>

datatype request =
    Connection
  | Disconnect nat
  | TriggerAttack draws
  | Protect string "string option" nat "(string \<times> jsval) list"

definition step :: "request \<Rightarrow> server \<Rightarrow> server" where
  "step r s =
     (if \<not> listening s \<or> exited s \<noteq> None then s
      else (case r of
              Connection \<Rightarrow> on_connection s
            | Disconnect sid \<Rightarrow> on_disconnect sid s
            | TriggerAttack env \<Rightarrow> snd (trigger_attack env s)
            | Protect random16 fault now req_body \<Rightarrow>
                snd (protect random16 fault now req_body s)))"

fun run :: "request list \<Rightarrow> server \<Rightarrow> server" where
  "run [] s = s"
| "run (r # rs) s = run rs (step r s)"

text \<open>
  The database file outlives the process. A lifetime of the store is a sequence of
  process runs, each given by its arguments, the outcome of opening the file and of the
  table creation, and the requests it serves; the next run opens what the previous one
  left on disk.
\<close>

fun lifetime ::
  "(string list \<times> string option \<times> string option \<times> request list) list \<Rightarrow> database \<Rightarrow> database" where
  "lifetime [] disk = disk"
| "lifetime ((argv, open_error, create_fault, rs) # later) disk =
     lifetime later (db (run rs (startup argv disk open_error create_fault)))"

text \<open>
  The invariant of the stored records: identifiers strictly increase in the order of
  insertion and none exceeds the recorded sequence value, and no \<^verbatim>\<open>raw_tx\<close> is empty
  or absent.
\<close>

definition store_inv :: "database \<Rightarrow> bool" where
  "store_inv d =
     (case protected_trades d of
        None \<Rightarrow> True
      | Some rows \<Rightarrow>
          sorted_wrt (<) (map row_id rows) \<and>
          list_all (\<lambda>r. row_id r \<le> sqlite_sequence d \<and> truthy (raw_tx r)) rows)"

text \<open>Successive calls of the generator, each with its own draws.\<close>

fun generate_all :: "draws list \<Rightarrow> nat \<Rightarrow> attack_event list \<times> nat" where
  "generate_all [] counter = ([], counter)"
| "generate_all (env # envs) counter =
     (case generateLocalAttack env counter of
        (ev, counter') \<Rightarrow>
          (case generate_all envs counter' of
             (evs, counter'') \<Rightarrow> (ev # evs, counter'')))"

definition status_count :: "client \<Rightarrow> nat" where
  "status_count c = length (filter (\<lambda>m. fst m = ''STATUS'') (received c))"

text \<open>
  A session was greeted once when the first thing emitted to it is the status message
  and it received no other \<^verbatim>\<open>STATUS\<close> event.
\<close>

definition greeted_once :: "client \<Rightarrow> bool" where
  "greeted_once c =
     (status_count c = 1 \<and>
      (\<exists>rest. received c = (''STATUS'', StatusMessage status_message) # rest))"

section \<open>Properties\<close>

subsection \<open>Risk analyzer\<close>



text \<open>
  A configured service that throws \<open>null\<close>: reading \<^verbatim>\<open>e.message\<close> in the \<^verbatim>\<open>catch\<close> block
  raises, and the promise is rejected.
\<close>

lemma analyze_rejects_thrown_null:
  "geminiRiskAnalyzer parse_sample (Some (failing (Thrown JNull))) (JStr ''Buy 10 shares of TATA'')
     = Rejected TypeError"
  by (simp add: geminiRiskAnalyzer_def configured_call_def failing_def catch_block_def
      message_readable_def)






subsection \<open>Rejected submissions\<close>

lemma protect_falsy:
  "\<not> truthy (js_get req_body ''rawTransaction'') \<Longrightarrow>
     protect random16 fault now req_body s = (Some bad_request, s)"
  by (simp add: protect_def Let_def)

lemma step_protect_falsy:
  "\<not> truthy (js_get req_body ''rawTransaction'') \<Longrightarrow>
     step (Protect random16 fault now req_body) s = s"
  by (simp add: step_def protect_falsy)

text \<open>
  C3. When \<^verbatim>\<open>rawTransaction\<close> is absent from the request or is the empty string, the
  handler answers 400 with \<^verbatim>\<open>success: false\<close> and a message, and the server state is
  unchanged: nothing was handed to the database and no record was added. The handler
  makes no network call on any path.
\<close>

theorem protect_rejects_empty:
  assumes "js_get req_body ''rawTransaction'' = JUndefined
           \<or> js_get req_body ''rawTransaction'' = JStr []"
  shows "protect random16 fault now req_body s = (Some bad_request, s) \<and>
         status_code bad_request = 400 \<and>
         body bad_request = JObj [(''success'', JBool False),
                 (''message'', JStr ''Raw transaction data is required.'')] \<and>
         store_calls (snd (protect random16 fault now req_body s)) = store_calls s \<and>
         db (snd (protect random16 fault now req_body s)) = db s \<and>
         step (Protect random16 fault now req_body) s = s"
proof -
  from assms have falsy: "\<not> truthy (js_get req_body ''rawTransaction'')"
    by auto
  have r: "protect random16 fault now req_body s = (Some bad_request, s)"
    using falsy by (rule protect_falsy)
  have st: "step (Protect random16 fault now req_body) s = s"
    using falsy by (rule step_protect_falsy)
  show ?thesis
    using r st by (simp add: bad_request_def js_get_def)
qed

theorem protect_rejects_empty_witness:
  "protect ''0.8c3f2a91b7'' None 7 [] (startup [] empty_disk None None)
     = (Some bad_request, startup [] empty_disk None None) \<and>
   protect ''0.8c3f2a91b7'' None 7 [(''rawTransaction'', JStr [])] (startup [] empty_disk None None)
     = (Some bad_request, startup [] empty_disk None None)"
proof -
  have a: "js_get [] ''rawTransaction'' = JUndefined"
    by (simp add: js_get_def)
  have b: "js_get [(''rawTransaction'', JStr [])] ''rawTransaction'' = JStr []"
    by (simp add: js_get_def)
  from protect_rejects_empty [of "[]" "''0.8c3f2a91b7''" None 7 "startup [] empty_disk None None"] a
  have x: "protect ''0.8c3f2a91b7'' None 7 [] (startup [] empty_disk None None)
     = (Some bad_request, startup [] empty_disk None None)"
    by blast
  from protect_rejects_empty [of "[(''rawTransaction'', JStr [])]" "''0.8c3f2a91b7''" None 7
      "startup [] empty_disk None None"] b
  have y: "protect ''0.8c3f2a91b7'' None 7 [(''rawTransaction'', JStr [])]
       (startup [] empty_disk None None) = (Some bad_request, startup [] empty_disk None None)"
    by blast
  from x y show ?thesis by blast
qed

lemma falsy_values:
  "\<not> truthy v \<longleftrightarrow> v = JUndefined \<or> v = JNull \<or> v = JBool False \<or> v = JNum 0 \<or> v = JStr []"
  by (cases v) auto

text \<open>
  C10. The falsy values are exactly \<open>undefined\<close>, \<open>null\<close>, \<open>false\<close>, the number 0 and the
  empty string. For each of them the handler answers with the same 400 response, hands
  nothing to the database and adds no record; the outcome is the one of a request
  without the field.
\<close>

theorem protect_rejects_falsy:
  "(\<not> truthy v \<longleftrightarrow> v = JUndefined \<or> v = JNull \<or> v = JBool False \<or> v = JNum 0 \<or> v = JStr []) \<and>
   (\<not> truthy (js_get req_body ''rawTransaction'') \<longrightarrow>
      protect random16 fault now req_body s = (Some bad_request, s) \<and>
      store_calls (snd (protect random16 fault now req_body s)) = store_calls s \<and>
      db (snd (protect random16 fault now req_body s)) = db s) \<and>
   (\<not> truthy (js_get req_body ''rawTransaction'') \<and> js_get other_body ''rawTransaction'' = JUndefined \<longrightarrow>
      protect random16 fault now req_body s = protect random16 fault now other_body s)"
proof -
  have absent: "js_get other_body ''rawTransaction'' = JUndefined \<Longrightarrow>
      protect random16 fault now other_body s = (Some bad_request, s)"
    by (rule protect_falsy) simp
  show ?thesis
    using falsy_values [of v] protect_falsy [of req_body random16 fault now s] absent
    by auto
qed

theorem protect_rejects_falsy_witness:
  "protect ''0.5a'' None 3 [(''rawTransaction'', JNull)] (startup [] empty_disk None None)
     = (Some bad_request, startup [] empty_disk None None) \<and>
   protect ''0.5a'' None 3 [(''rawTransaction'', JNum 0)] (startup [] empty_disk None None)
     = (Some bad_request, startup [] empty_disk None None) \<and>
   protect ''0.5a'' None 3 [(''rawTransaction'', JBool False)] (startup [] empty_disk None None)
     = protect ''0.5a'' None 3 [] (startup [] empty_disk None None)"
proof -
  have a: "\<not> truthy (js_get [(''rawTransaction'', JNull)] ''rawTransaction'')"
    by (simp add: js_get_def)
  have b: "\<not> truthy (js_get [(''rawTransaction'', JNum 0)] ''rawTransaction'')"
    by (simp add: js_get_def)
  have c: "\<not> truthy (js_get [(''rawTransaction'', JBool False)] ''rawTransaction'')"
    by (simp add: js_get_def)
  have d: "js_get [] ''rawTransaction'' = JUndefined"
    by (simp add: js_get_def)
  from protect_rejects_falsy [of _ "[(''rawTransaction'', JNull)]" "''0.5a''" None 3
      "startup [] empty_disk None None"] a
  have x: "protect ''0.5a'' None 3 [(''rawTransaction'', JNull)] (startup [] empty_disk None None)
     = (Some bad_request, startup [] empty_disk None None)"
    by blast
  from protect_rejects_falsy [of _ "[(''rawTransaction'', JNum 0)]" "''0.5a''" None 3
      "startup [] empty_disk None None"] b
  have y: "protect ''0.5a'' None 3 [(''rawTransaction'', JNum 0)] (startup [] empty_disk None None)
     = (Some bad_request, startup [] empty_disk None None)"
    by blast
  from protect_rejects_falsy [of _ "[(''rawTransaction'', JBool False)]" "''0.5a''" None 3
      "startup [] empty_disk None None" "[]"] c d
  have z: "protect ''0.5a'' None 3 [(''rawTransaction'', JBool False)] (startup [] empty_disk None None)
     = protect ''0.5a'' None 3 [] (startup [] empty_disk None None)"
    by blast
  from x y z show ?thesis by blast
qed

subsection \<open>Accepted submissions and the stored records\<close>

lemma largest_id_bounds:
  "sqlite_sequence d \<le> largest_id d rows" "r \<in> set rows \<Longrightarrow> row_id r \<le> largest_id d rows"
proof -
  have eq: "largest_id d rows = Max (set (sqlite_sequence d # map row_id rows))"
    by (simp only: largest_id_def Max.set_eq_fold)
  show "sqlite_sequence d \<le> largest_id d rows"
    unfolding eq by (rule Max_ge) simp_all
  show "r \<in> set rows \<Longrightarrow> row_id r \<le> largest_id d rows"
    unfolding eq by (rule Max_ge) simp_all
qed

lemma exec_insert_ready:
  assumes "handle d = Opened" and "protected_trades d = Some rows"
  shows "exec_insert None now raw hash st d =
     (Called (Inr (Suc (largest_id d rows))),
      d\<lparr>protected_trades := Some (rows @
           [\<lparr>row_id = Suc (largest_id d rows), raw_tx = raw,
             protection_relay_tx_hash = hash, row_status = st, submitted_at = now\<rparr>]),
        sqlite_sequence := Suc (largest_id d rows)\<rparr>)"
  using assms by (simp add: exec_insert_def Let_def)

lemma exec_insert_unready:
  assumes "\<not> (store_ready d \<and> fault = None)"
  shows "snd (exec_insert fault now raw hash st d) = d"
    and "handle d = OpenFailed \<Longrightarrow> fst (exec_insert fault now raw hash st d) = NeverCalled"
    and "handle d \<noteq> OpenFailed \<Longrightarrow> \<exists>err. fst (exec_insert fault now raw hash st d) = Called (Inl err)"
  using assms
  by (auto simp: exec_insert_def store_ready_def split: handle_state.splits option.splits)

lemma exec_insert_inv:
  assumes "store_inv d" and "truthy raw"
  shows "store_inv (snd (exec_insert fault now raw hash st d))"
proof (cases "store_ready d \<and> fault = None")
  case False
  then show ?thesis
    using assms(1) by (simp add: exec_insert_unready(1))
next
  case True
  then obtain rows where rows: "protected_trades d = Some rows" and opened: "handle d = Opened"
    and nofault: "fault = None"
    by (auto simp: store_ready_def)
  from assms rows have srt: "sorted_wrt (<) (map row_id rows)"
    and all: "list_all (\<lambda>r. row_id r \<le> sqlite_sequence d \<and> truthy (raw_tx r)) rows"
    by (simp_all add: store_inv_def)
  have below: "\<forall>r\<in>set rows. row_id r < Suc (largest_id d rows)"
    using largest_id_bounds(2) [of _ rows d] by (auto simp: less_Suc_eq_le)
  have srt': "sorted_wrt (<) (map row_id rows @ [Suc (largest_id d rows)])"
    using srt below by (simp add: sorted_wrt_append)
  have all': "list_all (\<lambda>r. row_id r \<le> Suc (largest_id d rows) \<and> truthy (raw_tx r)) rows"
    using all below by (auto simp: list_all_iff less_imp_le)
  show ?thesis
    unfolding nofault exec_insert_ready [OF opened rows]
    using srt' all' assms(2) by (simp add: store_inv_def)
qed

lemma exec_create_inv: "store_inv d \<Longrightarrow> store_inv (snd (exec_create fault d))"
  by (auto simp: exec_create_def store_inv_def split: handle_state.splits option.splits)

lemma protect_db:
  "db (snd (protect random16 fault now req_body s)) =
     (if truthy (js_get req_body ''rawTransaction'')
      then snd (exec_insert fault now (js_get req_body ''rawTransaction'') (mock_hash random16)
                  ''Submitted_Protected'' (db s))
      else db s)"
  by (simp add: protect_def Let_def split: prod.splits sum.splits callback.splits)

lemma step_db:
  "db (step r s) = db s \<or>
   (\<exists>random16 fault now req_body. truthy (js_get req_body ''rawTransaction'') \<and>
      db (step r s) = snd (exec_insert fault now (js_get req_body ''rawTransaction'')
                             (mock_hash random16) ''Submitted_Protected'' (db s)))"
proof (cases r)
  case (Protect random16 fault now req_body)
  then show ?thesis
    by (cases "truthy (js_get req_body ''rawTransaction'')")
       (auto simp: step_def protect_db)
qed (simp_all add: step_def on_connection_def on_disconnect_def trigger_attack_def
      broadcastAttack_def io_emit_def split: prod.splits)

lemma step_inv: "store_inv (db s) \<Longrightarrow> store_inv (db (step r s))"
  using step_db [of r s] exec_insert_inv [of "db s"] by auto

lemma run_inv: "store_inv (db s) \<Longrightarrow> store_inv (db (run rs s))"
  by (induction rs arbitrary: s) (simp_all add: step_inv)

lemma store_inv_handle: "store_inv (d\<lparr>handle := h\<rparr>) = store_inv d"
  by (cases "protected_trades d") (simp_all add: store_inv_def)

lemma initDb_db:
  "db (initDb argv fault s) = snd (exec_create fault (db s)) \<or>
   db (initDb argv fault s) = (snd (exec_create fault (db s)))\<lparr>handle := Closed\<rparr>"
  by (simp add: initDb_def Let_def split: prod.splits callback.splits)

lemma startup_db:
  "db (startup argv disk open_error create_fault) =
     snd (exec_create create_fault (open_database open_error disk)) \<or>
   db (startup argv disk open_error create_fault) =
     (snd (exec_create create_fault (open_database open_error disk)))\<lparr>handle := Closed\<rparr>"
  by (simp add: startup_def initDb_def Let_def split: prod.splits callback.splits)

lemma startup_inv: "store_inv disk \<Longrightarrow> store_inv (db (startup argv disk open_error create_fault))"
  using startup_db [of argv disk open_error create_fault]
  by (auto simp: store_inv_handle exec_create_inv open_database_def)

lemma lifetime_inv: "store_inv disk \<Longrightarrow> store_inv (lifetime runs disk)"
proof (induction runs arbitrary: disk)
  case Nil
  then show ?case by simp
next
  case (Cons p runs)
  obtain argv open_error create_fault rs where p: "p = (argv, open_error, create_fault, rs)"
    by (cases p) auto
  from Cons.prems have "store_inv (db (run rs (startup argv disk open_error create_fault)))"
    by (intro run_inv startup_inv)
  then show ?case
    unfolding p by (simp add: Cons.IH)
qed

lemma empty_disk_inv: "store_inv empty_disk"
  by (simp add: store_inv_def empty_disk_def)

lemma reachable_inv:
  "store_inv (db (run rs (startup argv (lifetime runs empty_disk) open_error create_fault)))"
  by (intro run_inv startup_inv lifetime_inv empty_disk_inv)

lemma responses_differ:
  "database_error \<noteq> logged h i" "bad_request \<noteq> logged h i" "bad_request \<noteq> database_error"
  by (simp_all add: database_error_def logged_def bad_request_def)

lemma logged_inject: "logged h i = logged h' i' \<longleftrightarrow> h = h' \<and> i = i'"
  by (auto simp: logged_def)

lemma response_bodies:
  "body database_error = JObj [(''success'', JBool False),
     (''message'', JStr ''Database error while logging trade.'')]"
  "body (logged h lastID) = JObj [(''success'', JBool True),
     (''message'', JStr ''Trade successfully logged to Private MEV-Protection Relay.''),
     (''txHash'', JStr h), (''dbId'', JNum (real lastID))]"
  by (simp_all add: database_error_def logged_def)

lemma protect_cases:
  assumes "truthy (js_get req_body ''rawTransaction'')"
  shows "protect random16 fault now req_body s =
     (case fst (exec_insert fault now (js_get req_body ''rawTransaction'') (mock_hash random16)
                  ''Submitted_Protected'' (db s)) of
        NeverCalled \<Rightarrow> None
      | Called (Inl err) \<Rightarrow> Some database_error
      | Called (Inr lastID) \<Rightarrow> Some (logged (mock_hash random16) lastID),
      s\<lparr>db := snd (exec_insert fault now (js_get req_body ''rawTransaction'') (mock_hash random16)
                  ''Submitted_Protected'' (db s)),
        store_calls := store_calls s @
          [InsertTrade (js_get req_body ''rawTransaction'') (mock_hash random16)
             ''Submitted_Protected'']\<rparr>)"
  using assms by (simp add: protect_def Let_def split: prod.splits callback.splits sum.splits)

lemma protect_logged:
  assumes "protect random16 fault now req_body s = (Some (logged h i), s')"
  shows "h = mock_hash random16 \<and> truthy (js_get req_body ''rawTransaction'') \<and>
         (\<exists>rows. protected_trades (db s) = Some rows \<and> i = Suc (largest_id (db s) rows) \<and>
            protected_trades (db s') = Some (rows @
              [\<lparr>row_id = i, raw_tx = js_get req_body ''rawTransaction'',
                protection_relay_tx_hash = h, row_status = ''Submitted_Protected'',
                submitted_at = now\<rparr>]) \<and>
            sqlite_sequence (db s') = i)"
proof (cases "truthy (js_get req_body ''rawTransaction'')")
  case False
  with assms show ?thesis
    by (simp add: protect_def Let_def responses_differ)
next
  case True
  note pc = protect_cases [OF True, of random16 fault now s]
  show ?thesis
  proof (cases "store_ready (db s) \<and> fault = None")
    case False
    have "fst (exec_insert fault now (js_get req_body ''rawTransaction'') (mock_hash random16)
                  ''Submitted_Protected'' (db s)) = NeverCalled \<or>
          (\<exists>err. fst (exec_insert fault now (js_get req_body ''rawTransaction'')
                  (mock_hash random16) ''Submitted_Protected'' (db s)) = Called (Inl err))"
      using exec_insert_unready(2,3) [OF False] by blast
    with assms pc show ?thesis
      by (auto simp: responses_differ)
  next
    case ready: True
    then obtain rows where rows: "protected_trades (db s) = Some rows"
      and opened: "handle (db s) = Opened" and nofault: "fault = None"
      by (auto simp: store_ready_def)
    from assms pc True rows show ?thesis
      unfolding nofault exec_insert_ready [OF opened rows]
      by (auto simp: logged_inject)
  qed
qed

lemma fresh_db:
  "db (startup [] empty_disk None None)
     = \<lparr>handle = Opened, protected_trades = Some [], sqlite_sequence = 0\<rparr>"
  by (simp add: startup_def initDb_def exec_create_def open_database_def empty_disk_def Let_def)

lemma unopened_db:
  "db (startup [] empty_disk (Some ''SQLITE_CANTOPEN: unable to open database file'') None)
     = \<lparr>handle = OpenFailed, protected_trades = None, sqlite_sequence = 0\<rparr>"
  by (simp add: startup_def initDb_def exec_create_def open_database_def empty_disk_def Let_def)

lemma unopened_calls:
  "store_calls (startup [] empty_disk (Some ''SQLITE_CANTOPEN: unable to open database file'') None)
     = [CreateTableIfNotExists]"
  by (simp add: startup_def initDb_def exec_create_def open_database_def empty_disk_def Let_def)

lemma sample_hash: "mock_hash ''0.8c3f2a91b7'' = ''0xsim-log-8c3f2a91''"
  by (simp add: mock_hash_def slice_def)

lemma sample_body:
  "js_get [(''rawTransaction'', JStr ''0xdeadbeef'')] ''rawTransaction'' = JStr ''0xdeadbeef''"
  by (simp add: js_get_def)

text \<open>
  The database file could not be opened at startup. A submission of \<^verbatim>\<open>0xdeadbeef\<close> is
  handed to the database, the callback of the insert is never called, and the handler
  sends neither the success response nor the failure response.
\<close>

theorem protect_unanswered_counterexample:
  "truthy (js_get [(''rawTransaction'', JStr ''0xdeadbeef'')] ''rawTransaction'') \<and>
   fst (protect ''0.8c3f2a91b7'' None 7 [(''rawTransaction'', JStr ''0xdeadbeef'')]
     (startup [] empty_disk (Some ''SQLITE_CANTOPEN: unable to open database file'') None))
     = None \<and>
   store_calls (snd (protect ''0.8c3f2a91b7'' None 7 [(''rawTransaction'', JStr ''0xdeadbeef'')]
     (startup [] empty_disk (Some ''SQLITE_CANTOPEN: unable to open database file'') None)))
     = [CreateTableIfNotExists,
        InsertTrade (JStr ''0xdeadbeef'') ''0xsim-log-8c3f2a91'' ''Submitted_Protected'']"
  by (simp add: protect_def Let_def exec_insert_def sample_body sample_hash unopened_db
      unopened_calls)

text \<open>
  C4, as amended. For a \<^verbatim>\<open>rawTransaction\<close> that is not empty the handler hands exactly one
  insert to the database, with the synthesized token. Provided the opening of the
  database did not fail: when the store is ready and the engine reports no fault the
  insert succeeds, the response is the success response with that token and the new
  identifier, which exceeds every identifier in the table, and the table gains exactly
  that row; otherwise the response is the failure response with a message and the
  database is unchanged; the response is one of the two and never both. On a handle
  whose opening failed the insert is never run, no response is sent and the database is
  unchanged.
\<close>

theorem protect_appends_once:
  assumes "truthy (js_get req_body ''rawTransaction'')"
  shows "let R = protect random16 fault now req_body s;
             raw = js_get req_body ''rawTransaction'';
             h = mock_hash random16
         in store_calls (snd R) = store_calls s @ [InsertTrade raw h ''Submitted_Protected''] \<and>
            (handle (db s) \<noteq> OpenFailed \<longrightarrow>
               (if store_ready (db s) \<and> fault = None
                then \<exists>rows. protected_trades (db s) = Some rows \<and>
                       fst R = Some (logged h (Suc (largest_id (db s) rows))) \<and>
                       protected_trades (db (snd R)) = Some (rows @
                         [\<lparr>row_id = Suc (largest_id (db s) rows), raw_tx = raw,
                           protection_relay_tx_hash = h, row_status = ''Submitted_Protected'',
                           submitted_at = now\<rparr>]) \<and>
                       list_all (\<lambda>r. row_id r < Suc (largest_id (db s) rows)) rows
                else fst R = Some database_error \<and> db (snd R) = db s) \<and>
               (fst R = Some database_error \<or> (\<exists>i. fst R = Some (logged h i))) \<and>
               \<not> (fst R = Some database_error \<and> (\<exists>i. fst R = Some (logged h i)))) \<and>
            (handle (db s) = OpenFailed \<longrightarrow> fst R = None \<and> db (snd R) = db s) \<and>
            body database_error = JObj [(''success'', JBool False),
              (''message'', JStr ''Database error while logging trade.'')] \<and>
            body (logged h lastID) = JObj [(''success'', JBool True),
              (''message'', JStr ''Trade successfully logged to Private MEV-Protection Relay.''),
              (''txHash'', JStr h), (''dbId'', JNum (real lastID))]"
proof -
  note pc = protect_cases [OF assms, of random16 fault now s]
  note bodies = response_bodies(1) response_bodies(2) [of "mock_hash random16" lastID]
  show ?thesis
  proof (cases "store_ready (db s) \<and> fault = None")
    case False
    note un = exec_insert_unready [OF False, of now "js_get req_body ''rawTransaction''"
        "mock_hash random16" "''Submitted_Protected''"]
    show ?thesis
    proof (cases "handle (db s) = OpenFailed")
      case True
      with pc un(1) un(2) False bodies show ?thesis
        by (simp add: Let_def)
    next
      case opened: False
      with un(3) obtain err where
        "fst (exec_insert fault now (js_get req_body ''rawTransaction'') (mock_hash random16)
           ''Submitted_Protected'' (db s)) = Called (Inl err)"
        by blast
      with pc un(1) False opened bodies responses_differ(1) show ?thesis
        by (simp add: Let_def)
    qed
  next
    case True
    then obtain rows where rows: "protected_trades (db s) = Some rows"
      and opened: "handle (db s) = Opened" and nofault: "fault = None"
      by (auto simp: store_ready_def)
    have below: "list_all (\<lambda>r. row_id r < Suc (largest_id (db s) rows)) rows"
      using largest_id_bounds(2) [of _ rows "db s"] by (auto simp: list_all_iff less_Suc_eq_le)
    from pc True rows opened below bodies responses_differ(1) show ?thesis
      unfolding nofault exec_insert_ready [OF opened rows]
      by (auto simp: Let_def)
  qed
qed

theorem protect_appends_once_witness:
  "truthy (js_get [(''rawTransaction'', JStr ''0xdeadbeef'')] ''rawTransaction'') \<and>
   fst (protect ''0.8c3f2a91b7'' None 7 [(''rawTransaction'', JStr ''0xdeadbeef'')]
          (startup [] empty_disk None None)) = Some (logged ''0xsim-log-8c3f2a91'' 1) \<and>
   fst (protect ''0.8c3f2a91b7'' (Some ''SQLITE_BUSY: database is locked'') 7
          [(''rawTransaction'', JStr ''0xdeadbeef'')]
          (startup [] empty_disk None None)) = Some database_error \<and>
   fst (protect ''0.8c3f2a91b7'' None 7 [(''rawTransaction'', JStr ''0xdeadbeef'')]
          (startup [] empty_disk (Some ''SQLITE_CANTOPEN: unable to open database file'') None))
     = None"
proof -
  have t: "truthy (js_get [(''rawTransaction'', JStr ''0xdeadbeef'')] ''rawTransaction'')"
    by (simp add: sample_body)
  have ready: "store_ready (db (startup [] empty_disk None None))"
    by (simp add: fresh_db store_ready_def)
  have a: "fst (protect ''0.8c3f2a91b7'' None 7 [(''rawTransaction'', JStr ''0xdeadbeef'')]
          (startup [] empty_disk None None)) = Some (logged ''0xsim-log-8c3f2a91'' 1)"
    using protect_appends_once [OF t, of "''0.8c3f2a91b7''" None 7 "startup [] empty_disk None None"]
      ready
    by (simp add: Let_def fresh_db sample_hash largest_id_def)
  have b: "fst (protect ''0.8c3f2a91b7'' (Some ''SQLITE_BUSY: database is locked'') 7
          [(''rawTransaction'', JStr ''0xdeadbeef'')]
          (startup [] empty_disk None None)) = Some database_error"
    using protect_appends_once [OF t, of "''0.8c3f2a91b7''"
        "Some ''SQLITE_BUSY: database is locked''" 7 "startup [] empty_disk None None"]
    by (simp add: Let_def fresh_db)
  have c: "fst (protect ''0.8c3f2a91b7'' None 7 [(''rawTransaction'', JStr ''0xdeadbeef'')]
          (startup [] empty_disk (Some ''SQLITE_CANTOPEN: unable to open database file'') None))
     = None"
    using protect_appends_once [OF t, of "''0.8c3f2a91b7''" None 7
        "startup [] empty_disk (Some ''SQLITE_CANTOPEN: unable to open database file'') None"]
    by (simp add: Let_def unopened_db)
  from t a b c show ?thesis by blast
qed

text \<open>
  C5. In every state the store reaches over its lifetime (any number of process runs,
  any requests), the identifiers of the stored records strictly increase in insertion
  order, hence are distinct, and no record has an empty or absent \<^verbatim>\<open>raw_tx\<close>. Two
  successful submissions of the same request body add two records with the second
  identifier larger than the first and than every earlier one, each with the token drawn
  for its own submission, which does not depend on the content submitted.
\<close>

theorem store_records_invariant:
  "(\<forall>rows. protected_trades (db (run rs (startup argv (lifetime runs empty_disk) open_error create_fault)))
        = Some rows \<longrightarrow>
      sorted_wrt (<) (map row_id rows) \<and> distinct (map row_id rows) \<and>
      list_all (\<lambda>r. truthy (raw_tx r) \<and> raw_tx r \<noteq> JStr [] \<and> raw_tx r \<noteq> JUndefined
                    \<and> raw_tx r \<noteq> JNull) rows) \<and>
   (\<forall>s1 s2 h1 h2 i1 i2.
      protect r1 f1 n1 req_body
        (run rs (startup argv (lifetime runs empty_disk) open_error create_fault)) = (Some (logged h1 i1), s1) \<and>
      protect r2 f2 n2 req_body s1 = (Some (logged h2 i2), s2) \<longrightarrow>
      i1 < i2 \<and> h1 = mock_hash r1 \<and> h2 = mock_hash r2 \<and>
      (\<exists>rows. protected_trades
                 (db (run rs (startup argv (lifetime runs empty_disk) open_error create_fault)))
               = Some rows \<and>
         list_all (\<lambda>r. row_id r < i1) rows \<and>
         protected_trades (db s2) = Some (rows @
           [\<lparr>row_id = i1, raw_tx = js_get req_body ''rawTransaction'',
             protection_relay_tx_hash = h1, row_status = ''Submitted_Protected'',
             submitted_at = n1\<rparr>,
            \<lparr>row_id = i2, raw_tx = js_get req_body ''rawTransaction'',
             protection_relay_tx_hash = h2, row_status = ''Submitted_Protected'',
             submitted_at = n2\<rparr>])))"
proof -
  define s where "s = run rs (startup argv (lifetime runs empty_disk) open_error create_fault)"
  have inv: "store_inv (db s)"
    unfolding s_def by (rule reachable_inv)
  have part1: "\<forall>rows. protected_trades (db s) = Some rows \<longrightarrow>
      sorted_wrt (<) (map row_id rows) \<and> distinct (map row_id rows) \<and>
      list_all (\<lambda>r. truthy (raw_tx r) \<and> raw_tx r \<noteq> JStr [] \<and> raw_tx r \<noteq> JUndefined
                    \<and> raw_tx r \<noteq> JNull) rows"
  proof (intro allI impI)
    fix rows
    assume rows: "protected_trades (db s) = Some rows"
    with inv have srt: "sorted_wrt (<) (map row_id rows)"
      and all: "list_all (\<lambda>r. row_id r \<le> sqlite_sequence (db s) \<and> truthy (raw_tx r)) rows"
      by (simp_all add: store_inv_def)
    from srt have "distinct (map row_id rows)"
      by (simp add: strict_sorted_iff)
    moreover from all have "list_all (\<lambda>r. truthy (raw_tx r) \<and> raw_tx r \<noteq> JStr []
        \<and> raw_tx r \<noteq> JUndefined \<and> raw_tx r \<noteq> JNull) rows"
      by (auto simp: list_all_iff)
    ultimately show "sorted_wrt (<) (map row_id rows) \<and> distinct (map row_id rows) \<and>
      list_all (\<lambda>r. truthy (raw_tx r) \<and> raw_tx r \<noteq> JStr [] \<and> raw_tx r \<noteq> JUndefined
                    \<and> raw_tx r \<noteq> JNull) rows"
      using srt by simp
  qed
  have part2: "\<forall>s1 s2 h1 h2 i1 i2.
      protect r1 f1 n1 req_body s = (Some (logged h1 i1), s1) \<and>
      protect r2 f2 n2 req_body s1 = (Some (logged h2 i2), s2) \<longrightarrow>
      i1 < i2 \<and> h1 = mock_hash r1 \<and> h2 = mock_hash r2 \<and>
      (\<exists>rows. protected_trades (db s) = Some rows \<and>
         list_all (\<lambda>r. row_id r < i1) rows \<and>
         protected_trades (db s2) = Some (rows @
           [\<lparr>row_id = i1, raw_tx = js_get req_body ''rawTransaction'',
             protection_relay_tx_hash = h1, row_status = ''Submitted_Protected'',
             submitted_at = n1\<rparr>,
            \<lparr>row_id = i2, raw_tx = js_get req_body ''rawTransaction'',
             protection_relay_tx_hash = h2, row_status = ''Submitted_Protected'',
             submitted_at = n2\<rparr>]))"
  proof (intro allI impI, elim conjE)
    fix s1 s2 h1 h2 i1 i2
    assume p1: "protect r1 f1 n1 req_body s = (Some (logged h1 i1), s1)"
      and p2: "protect r2 f2 n2 req_body s1 = (Some (logged h2 i2), s2)"
    from protect_logged [OF p1] obtain rows where
      h1: "h1 = mock_hash r1" and rows: "protected_trades (db s) = Some rows" and
      i1: "i1 = Suc (largest_id (db s) rows)" and
      t1: "protected_trades (db s1) = Some (rows @
              [\<lparr>row_id = i1, raw_tx = js_get req_body ''rawTransaction'',
                protection_relay_tx_hash = h1, row_status = ''Submitted_Protected'',
                submitted_at = n1\<rparr>])" and
      q1: "sqlite_sequence (db s1) = i1"
      by blast
    from protect_logged [OF p2] obtain rows1 where
      h2: "h2 = mock_hash r2" and rows1: "protected_trades (db s1) = Some rows1" and
      i2: "i2 = Suc (largest_id (db s1) rows1)" and
      t2: "protected_trades (db s2) = Some (rows1 @
              [\<lparr>row_id = i2, raw_tx = js_get req_body ''rawTransaction'',
                protection_relay_tx_hash = h2, row_status = ''Submitted_Protected'',
                submitted_at = n2\<rparr>])"
      by blast
    have lt: "i1 < i2"
      using largest_id_bounds(1) [of "db s1" rows1] q1 i2 by simp
    have below: "list_all (\<lambda>r. row_id r < i1) rows"
      using largest_id_bounds(2) [of _ rows "db s"] i1 by (auto simp: list_all_iff less_Suc_eq_le)
    from t1 rows1 t2 have "protected_trades (db s2) = Some (rows @
           [\<lparr>row_id = i1, raw_tx = js_get req_body ''rawTransaction'',
             protection_relay_tx_hash = h1, row_status = ''Submitted_Protected'',
             submitted_at = n1\<rparr>,
            \<lparr>row_id = i2, raw_tx = js_get req_body ''rawTransaction'',
             protection_relay_tx_hash = h2, row_status = ''Submitted_Protected'',
             submitted_at = n2\<rparr>])"
      by simp
    with lt h1 h2 rows below show "i1 < i2 \<and> h1 = mock_hash r1 \<and> h2 = mock_hash r2 \<and>
      (\<exists>rows. protected_trades (db s) = Some rows \<and>
         list_all (\<lambda>r. row_id r < i1) rows \<and>
         protected_trades (db s2) = Some (rows @
           [\<lparr>row_id = i1, raw_tx = js_get req_body ''rawTransaction'',
             protection_relay_tx_hash = h1, row_status = ''Submitted_Protected'',
             submitted_at = n1\<rparr>,
            \<lparr>row_id = i2, raw_tx = js_get req_body ''rawTransaction'',
             protection_relay_tx_hash = h2, row_status = ''Submitted_Protected'',
             submitted_at = n2\<rparr>]))"
      by blast
  qed
  from part1 part2 show ?thesis
    unfolding s_def by blast
qed

lemma first_submission:
  "protect ''0.8c3f2a91b7'' None 7 [(''rawTransaction'', JStr ''0xdeadbeef'')]
     (run [] (startup [] (lifetime [] empty_disk) None None))
   = (Some (logged ''0xsim-log-8c3f2a91'' 1),
      (startup [] empty_disk None None)
        \<lparr>db := \<lparr>handle = Opened,
                protected_trades = Some
                  [\<lparr>row_id = 1, raw_tx = JStr ''0xdeadbeef'',
                    protection_relay_tx_hash = ''0xsim-log-8c3f2a91'',
                    row_status = ''Submitted_Protected'', submitted_at = 7\<rparr>],
                sqlite_sequence = 1\<rparr>,
          store_calls := [CreateTableIfNotExists,
            InsertTrade (JStr ''0xdeadbeef'') ''0xsim-log-8c3f2a91'' ''Submitted_Protected'']\<rparr>)"
  by (simp add: protect_def Let_def exec_insert_def largest_id_def sample_body sample_hash
      fresh_db)
     (simp add: startup_def initDb_def exec_create_def open_database_def empty_disk_def Let_def)

lemma second_submission:
  "protect ''0.41d07be5'' None 9 [(''rawTransaction'', JStr ''0xdeadbeef'')]
     ((startup [] empty_disk None None)
        \<lparr>db := \<lparr>handle = Opened,
                protected_trades = Some
                  [\<lparr>row_id = 1, raw_tx = JStr ''0xdeadbeef'',
                    protection_relay_tx_hash = ''0xsim-log-8c3f2a91'',
                    row_status = ''Submitted_Protected'', submitted_at = 7\<rparr>],
                sqlite_sequence = 1\<rparr>,
          store_calls := [CreateTableIfNotExists,
            InsertTrade (JStr ''0xdeadbeef'') ''0xsim-log-8c3f2a91'' ''Submitted_Protected'']\<rparr>)
   = (Some (logged ''0xsim-log-41d07be5'' 2),
      (startup [] empty_disk None None)
        \<lparr>db := \<lparr>handle = Opened,
                protected_trades = Some
                  [\<lparr>row_id = 1, raw_tx = JStr ''0xdeadbeef'',
                    protection_relay_tx_hash = ''0xsim-log-8c3f2a91'',
                    row_status = ''Submitted_Protected'', submitted_at = 7\<rparr>,
                   \<lparr>row_id = 2, raw_tx = JStr ''0xdeadbeef'',
                    protection_relay_tx_hash = ''0xsim-log-41d07be5'',
                    row_status = ''Submitted_Protected'', submitted_at = 9\<rparr>],
                sqlite_sequence = 2\<rparr>,
          store_calls := [CreateTableIfNotExists,
            InsertTrade (JStr ''0xdeadbeef'') ''0xsim-log-8c3f2a91'' ''Submitted_Protected'',
            InsertTrade (JStr ''0xdeadbeef'') ''0xsim-log-41d07be5'' ''Submitted_Protected'']\<rparr>)"
  by (simp add: protect_def Let_def exec_insert_def largest_id_def sample_body
      mock_hash_def slice_def numeral_2_eq_2)

text \<open>
  On a fresh store, two submissions of \<^verbatim>\<open>0xdeadbeef\<close> are stored under the identifiers 1
  and 2.
\<close>

theorem store_records_invariant_witness:
  "(1::nat) < 2 \<and>
   protected_trades (db (snd (protect ''0.41d07be5'' None 9 [(''rawTransaction'', JStr ''0xdeadbeef'')]
     (snd (protect ''0.8c3f2a91b7'' None 7 [(''rawTransaction'', JStr ''0xdeadbeef'')]
        (startup [] empty_disk None None))))))
   = Some [\<lparr>row_id = 1, raw_tx = JStr ''0xdeadbeef'',
             protection_relay_tx_hash = ''0xsim-log-8c3f2a91'',
             row_status = ''Submitted_Protected'', submitted_at = 7\<rparr>,
           \<lparr>row_id = 2, raw_tx = JStr ''0xdeadbeef'',
             protection_relay_tx_hash = ''0xsim-log-41d07be5'',
             row_status = ''Submitted_Protected'', submitted_at = 9\<rparr>]"
proof -
  have s0: "run [] (startup [] (lifetime [] empty_disk) None None) = startup [] empty_disk None None"
    by simp
  have empty: "protected_trades (db (run [] (startup [] (lifetime [] empty_disk) None None)))
      = Some []"
    by (simp add: fresh_db)
  note inst = store_records_invariant [of "[]" "[]" "[]" None None
      "''0.8c3f2a91b7''" None 7 "[(''rawTransaction'', JStr ''0xdeadbeef'')]"
      "''0.41d07be5''" None 9]
  from inst first_submission second_submission
  have lt: "(1::nat) < 2"
    by blast
  from inst first_submission second_submission empty
  have "\<exists>rows. protected_trades (db (run [] (startup [] (lifetime [] empty_disk) None None)))
               = Some rows \<and>
         protected_trades (db ((startup [] empty_disk None None)
        \<lparr>db := \<lparr>handle = Opened,
                protected_trades = Some
                  [\<lparr>row_id = 1, raw_tx = JStr ''0xdeadbeef'',
                    protection_relay_tx_hash = ''0xsim-log-8c3f2a91'',
                    row_status = ''Submitted_Protected'', submitted_at = 7\<rparr>,
                   \<lparr>row_id = 2, raw_tx = JStr ''0xdeadbeef'',
                    protection_relay_tx_hash = ''0xsim-log-41d07be5'',
                    row_status = ''Submitted_Protected'', submitted_at = 9\<rparr>],
                sqlite_sequence = 2\<rparr>,
          store_calls := [CreateTableIfNotExists,
            InsertTrade (JStr ''0xdeadbeef'') ''0xsim-log-8c3f2a91'' ''Submitted_Protected'',
            InsertTrade (JStr ''0xdeadbeef'') ''0xsim-log-41d07be5'' ''Submitted_Protected'']\<rparr>))
         = Some (rows @
           [\<lparr>row_id = 1, raw_tx = js_get [(''rawTransaction'', JStr ''0xdeadbeef'')] ''rawTransaction'',
             protection_relay_tx_hash = ''0xsim-log-8c3f2a91'', row_status = ''Submitted_Protected'',
             submitted_at = 7\<rparr>,
            \<lparr>row_id = 2, raw_tx = js_get [(''rawTransaction'', JStr ''0xdeadbeef'')] ''rawTransaction'',
             protection_relay_tx_hash = ''0xsim-log-41d07be5'', row_status = ''Submitted_Protected'',
             submitted_at = 9\<rparr>])"
    by blast
  with lt first_submission [unfolded s0] second_submission show ?thesis
    by (simp add: sample_body)
qed

subsection \<open>Startup and table creation\<close>

lemma step_flags: "listening (step r s) = listening s \<and> exited (step r s) = exited s"
  by (cases r)
     (simp_all add: step_def on_connection_def on_disconnect_def trigger_attack_def
       broadcastAttack_def io_emit_def protect_def Let_def
       split: prod.splits sum.splits callback.splits)

lemma run_flags: "listening (run rs s) = listening s \<and> exited (run rs s) = exited s"
  by (induction rs arbitrary: s) (simp_all add: step_flags)

lemma step_unready: "\<not> store_ready (db s) \<Longrightarrow> db (step r s) = db s"
  using step_db [of r s] by (auto simp: exec_insert_unready(1))

lemma run_unready: "\<not> store_ready (db s) \<Longrightarrow> db (run rs s) = db s"
  by (induction rs arbitrary: s) (simp_all add: step_unready)

lemma startup_flags:
  "''--init-db'' \<notin> set argv \<Longrightarrow>
     listening (startup argv disk open_error create_fault) \<and>
     exited (startup argv disk open_error create_fault) = None \<and>
     handle (db (startup argv disk open_error create_fault))
       = (if open_error = None then Opened else OpenFailed)"
  by (simp add: startup_def initDb_def exec_create_def open_database_def Let_def
      split: prod.splits callback.splits option.splits)

lemma uncreated_db:
  "db (startup [] empty_disk None (Some ''SQLITE_IOERR: disk I/O error''))
     = \<lparr>handle = Opened, protected_trades = None, sqlite_sequence = 0\<rparr>"
  by (simp add: startup_def initDb_def exec_create_def open_database_def empty_disk_def Let_def)

text \<open>
  Two failures of the store at startup. When the creation of the table fails, the
  process has not exited, the server listens, and a submission is taken up to the
  insert and answered with the storage failure. When the database file cannot be
  opened, the process has not exited, the server listens, and a submission is taken up
  to the insert.
\<close>

theorem store_failure_fatal_counterexample:
  "\<not> store_ready (db (startup [] empty_disk None (Some ''SQLITE_IOERR: disk I/O error''))) \<and>
   listening (startup [] empty_disk None (Some ''SQLITE_IOERR: disk I/O error'')) \<and>
   exited (startup [] empty_disk None (Some ''SQLITE_IOERR: disk I/O error'')) = None \<and>
   fst (protect ''0.8c3f2a91b7'' None 7 [(''rawTransaction'', JStr ''0xdeadbeef'')]
     (startup [] empty_disk None (Some ''SQLITE_IOERR: disk I/O error'')))
     = Some database_error \<and>
   \<not> store_ready (db (startup [] empty_disk (Some ''SQLITE_CANTOPEN: unable to open database file'') None)) \<and>
   listening (startup [] empty_disk (Some ''SQLITE_CANTOPEN: unable to open database file'') None) \<and>
   exited (startup [] empty_disk (Some ''SQLITE_CANTOPEN: unable to open database file'') None) = None \<and>
   store_calls (snd (protect ''0.8c3f2a91b7'' None 7 [(''rawTransaction'', JStr ''0xdeadbeef'')]
     (startup [] empty_disk (Some ''SQLITE_CANTOPEN: unable to open database file'') None)))
     = [CreateTableIfNotExists,
        InsertTrade (JStr ''0xdeadbeef'') ''0xsim-log-8c3f2a91'' ''Submitted_Protected'']"
  by (simp add: startup_def initDb_def exec_create_def open_database_def empty_disk_def Let_def
      store_ready_def protect_def exec_insert_def sample_body sample_hash)

text \<open>
  C6, as amended. When the store is not ready after startup (the file did not open, or
  the table is missing and its creation failed) and the process was not started with
  \<^verbatim>\<open>--init-db\<close>, the failure is not fatal: after any requests the server still
  listens, \<^verbatim>\<open>process.exit\<close> was not called, and the store is as it was at startup, so it
  never becomes ready. A submission with a \<^verbatim>\<open>rawTransaction\<close> that is not empty is
  handed to the database; it is answered with the storage failure response when the
  file had opened, and is never answered when the opening had failed. An empty one is
  answered with the client input failure. Nothing is persisted.
\<close>

theorem store_failure_not_fatal:
  assumes "''--init-db'' \<notin> set argv"
    and "\<not> store_ready (db (startup argv disk open_error create_fault))"
  shows "let s = run rs (startup argv disk open_error create_fault);
             R = protect random16 fault now req_body s
         in listening s \<and> exited s = None \<and>
            db s = db (startup argv disk open_error create_fault) \<and>
            (if truthy (js_get req_body ''rawTransaction'')
             then fst R = (if open_error = None then Some database_error else None) \<and>
                  store_calls (snd R) = store_calls s @
                    [InsertTrade (js_get req_body ''rawTransaction'') (mock_hash random16)
                       ''Submitted_Protected'']
             else fst R = Some bad_request \<and> store_calls (snd R) = store_calls s) \<and>
            db (snd R) = db s"
proof -
  define s where "s = run rs (startup argv disk open_error create_fault)"
  have flags: "listening s \<and> exited s = None"
    unfolding s_def using startup_flags [OF assms(1)] by (simp add: run_flags)
  have same: "db s = db (startup argv disk open_error create_fault)"
    unfolding s_def using assms(2) by (rule run_unready)
  with assms(2) have unready: "\<not> (store_ready (db s) \<and> fault = None)"
    by simp
  have h: "handle (db s) = (if open_error = None then Opened else OpenFailed)"
    using same startup_flags [OF assms(1), of disk open_error create_fault] by simp
  note un = exec_insert_unready [OF unready, of now "js_get req_body ''rawTransaction''"
      "mock_hash random16" "''Submitted_Protected''"]
  have dbsame: "db (snd (protect random16 fault now req_body s)) = db s"
    by (simp add: protect_db un(1))
  show ?thesis
  proof (cases "truthy (js_get req_body ''rawTransaction'')")
    case False
    then have "protect random16 fault now req_body s = (Some bad_request, s)"
      by (rule protect_falsy)
    with False flags same dbsame show ?thesis
      unfolding s_def [symmetric] Let_def by simp
  next
    case True
    note pc = protect_cases [OF True, of random16 fault now s]
    show ?thesis
    proof (cases "open_error = None")
      case opened: True
      with h un(3) obtain err where
        "fst (exec_insert fault now (js_get req_body ''rawTransaction'') (mock_hash random16)
           ''Submitted_Protected'' (db s)) = Called (Inl err)"
        by auto
      with pc True opened flags same dbsame show ?thesis
        unfolding s_def [symmetric] Let_def by simp
    next
      case failed: False
      with h un(2) have
        "fst (exec_insert fault now (js_get req_body ''rawTransaction'') (mock_hash random16)
           ''Submitted_Protected'' (db s)) = NeverCalled"
        by auto
      with pc True failed flags same dbsame show ?thesis
        unfolding s_def [symmetric] Let_def by simp
    qed
  qed
qed

theorem store_failure_not_fatal_witness:
  "''--init-db'' \<notin> set [''node'', ''server.js''] \<and>
   listening (run [Connection] (startup [''node'', ''server.js''] empty_disk None
      (Some ''SQLITE_IOERR: disk I/O error''))) \<and>
   fst (protect ''0.8c3f2a91b7'' None 7 [(''rawTransaction'', JStr ''0xdeadbeef'')]
     (run [Connection] (startup [''node'', ''server.js''] empty_disk None
        (Some ''SQLITE_IOERR: disk I/O error'')))) = Some database_error \<and>
   fst (protect ''0.8c3f2a91b7'' None 7 [(''rawTransaction'', JStr ''0xdeadbeef'')]
     (run [Connection] (startup [''node'', ''server.js''] empty_disk
        (Some ''SQLITE_CANTOPEN: unable to open database file'') None))) = None"
proof -
  have a: "''--init-db'' \<notin> set [''node'', ''server.js'']"
    by simp
  have b: "\<not> store_ready (db (startup [''node'', ''server.js''] empty_disk None
      (Some ''SQLITE_IOERR: disk I/O error'')))"
    by (simp add: startup_def initDb_def exec_create_def open_database_def empty_disk_def
        Let_def store_ready_def)
  have c: "\<not> store_ready (db (startup [''node'', ''server.js''] empty_disk
      (Some ''SQLITE_CANTOPEN: unable to open database file'') None))"
    by (simp add: startup_def initDb_def exec_create_def open_database_def empty_disk_def
        Let_def store_ready_def)
  from store_failure_not_fatal [OF a b, of "[Connection]" "''0.8c3f2a91b7''" None 7
      "[(''rawTransaction'', JStr ''0xdeadbeef'')]"]
  have x: "listening (run [Connection] (startup [''node'', ''server.js''] empty_disk None
      (Some ''SQLITE_IOERR: disk I/O error''))) \<and>
   fst (protect ''0.8c3f2a91b7'' None 7 [(''rawTransaction'', JStr ''0xdeadbeef'')]
     (run [Connection] (startup [''node'', ''server.js''] empty_disk None
        (Some ''SQLITE_IOERR: disk I/O error'')))) = Some database_error"
    by (simp add: Let_def sample_body)
  from store_failure_not_fatal [OF a c, of "[Connection]" "''0.8c3f2a91b7''" None 7
      "[(''rawTransaction'', JStr ''0xdeadbeef'')]"]
  have y: "fst (protect ''0.8c3f2a91b7'' None 7 [(''rawTransaction'', JStr ''0xdeadbeef'')]
     (run [Connection] (startup [''node'', ''server.js''] empty_disk
        (Some ''SQLITE_CANTOPEN: unable to open database file'') None))) = None"
    by (simp add: Let_def sample_body)
  from a x y show ?thesis by blast
qed

text \<open>
  C8. Creating the table on a store that already has it reports no error and leaves the
  store, its records included, as it is. Running the creation twice gives the result of
  running it once, and on an opened handle the creation succeeds and leaves the store
  ready. The same holds for two calls of \<^verbatim>\<open>initDb\<close>.
\<close>

theorem init_idempotent:
  "(store_ready d \<longrightarrow> exec_create None d = (Called None, d)) \<and>
   exec_create None (snd (exec_create None d)) = exec_create None d \<and>
   (handle d = Opened \<longrightarrow>
      fst (exec_create None d) = Called None \<and> store_ready (snd (exec_create None d))) \<and>
   db (initDb argv None (initDb argv None s)) = db (initDb argv None s)"
proof -
  have a: "store_ready d \<longrightarrow> exec_create None d = (Called None, d)"
    by (auto simp: exec_create_def store_ready_def)
  have b: "exec_create None (snd (exec_create None d)) = exec_create None d"
    by (simp add: exec_create_def split: option.splits handle_state.splits)
  have c: "handle d = Opened \<longrightarrow>
      fst (exec_create None d) = Called None \<and> store_ready (snd (exec_create None d))"
    by (simp add: exec_create_def store_ready_def split: option.splits)
  have e: "db (initDb argv None (initDb argv None s)) = db (initDb argv None s)"
    by (simp add: initDb_def exec_create_def Let_def split: option.splits handle_state.splits)
  from a b c e show ?thesis by blast
qed

theorem init_idempotent_witness:
  "store_ready \<lparr>handle = Opened,
      protected_trades = Some [\<lparr>row_id = 1, raw_tx = JStr ''0xdeadbeef'',
        protection_relay_tx_hash = ''0xsim-log-8c3f2a91'',
        row_status = ''Submitted_Protected'', submitted_at = 7\<rparr>],
      sqlite_sequence = 1\<rparr> \<and>
   exec_create None \<lparr>handle = Opened,
      protected_trades = Some [\<lparr>row_id = 1, raw_tx = JStr ''0xdeadbeef'',
        protection_relay_tx_hash = ''0xsim-log-8c3f2a91'',
        row_status = ''Submitted_Protected'', submitted_at = 7\<rparr>],
      sqlite_sequence = 1\<rparr>
   = (Called None, \<lparr>handle = Opened,
      protected_trades = Some [\<lparr>row_id = 1, raw_tx = JStr ''0xdeadbeef'',
        protection_relay_tx_hash = ''0xsim-log-8c3f2a91'',
        row_status = ''Submitted_Protected'', submitted_at = 7\<rparr>],
      sqlite_sequence = 1\<rparr>)"
proof -
  have r: "store_ready \<lparr>handle = Opened,
      protected_trades = Some [\<lparr>row_id = 1, raw_tx = JStr ''0xdeadbeef'',
        protection_relay_tx_hash = ''0xsim-log-8c3f2a91'',
        row_status = ''Submitted_Protected'', submitted_at = 7\<rparr>],
      sqlite_sequence = 1\<rparr>"
    by (simp add: store_ready_def)
  from init_idempotent [of "\<lparr>handle = Opened,
      protected_trades = Some [\<lparr>row_id = 1, raw_tx = JStr ''0xdeadbeef'',
        protection_relay_tx_hash = ''0xsim-log-8c3f2a91'',
        row_status = ''Submitted_Protected'', submitted_at = 7\<rparr>],
      sqlite_sequence = 1\<rparr>"] r
  show ?thesis by blast
qed

subsection \<open>Generated events\<close>

lemma digit_char_not_slash: "d < 10 \<Longrightarrow> digit_char d \<noteq> CHR ''/''"
proof
  assume d: "d < 10" and eq: "digit_char d = CHR ''/''"
  from eq have "(of_char (digit_char d) :: nat) = of_char (CHR ''/'')"
    by simp
  then have "(48 + d) mod 256 = 47"
    by (simp add: digit_char_def)
  with d show False by simp
qed

lemma dec_no_slash: "CHR ''/'' \<notin> set (dec n)"
proof (induction n rule: dec.induct)
  case (1 n)
  show ?case
  proof (cases "n < 10")
    case True
    then show ?thesis
      using digit_char_not_slash [of n] by (simp add: dec.simps [of n])
  next
    case False
    have "n mod 10 < 10" by simp
    then have "digit_char (n mod 10) \<noteq> CHR ''/''" by (rule digit_char_not_slash)
    with False 1 show ?thesis
      by (simp add: dec.simps [of n])
  qed
qed

lemma score_number_dec: "score_number (dec n @ ''/100'') = dec n"
proof -
  have "takeWhile (\<lambda>c. c \<noteq> CHR ''/'') (dec n @ ''/100'')
      = dec n @ takeWhile (\<lambda>c. c \<noteq> CHR ''/'') ''/100''"
  proof (rule takeWhile_append2)
    fix x
    assume "x \<in> set (dec n)"
    with dec_no_slash [of n] show "x \<noteq> CHR ''/''" by auto
  qed
  then show ?thesis by (simp add: score_number_def)
qed

lemma excess_bits_small: "n < 2 ^ 53 \<Longrightarrow> excess_bits n = 0"
  by (simp add: excess_bits.simps [of n])

lemma excess_bits_le: "n < 2 ^ (53 + j) \<Longrightarrow> excess_bits n \<le> j"
proof (induction j arbitrary: n)
  case 0
  then show ?case by (simp add: excess_bits_small)
next
  case (Suc j)
  show ?case
  proof (cases "n < 2 ^ 53")
    case True
    then show ?thesis by (simp add: excess_bits_small)
  next
    case False
    have "(2::nat) ^ (53 + Suc j) = 2 ^ (53 + j) * 2"
      by (simp only: add_Suc_right power_Suc mult.commute)
    with Suc.prems have "n < 2 ^ (53 + j) * 2"
      by (simp only:)
    then have "n div 2 < 2 ^ (53 + j)"
      by (rule less_mult_imp_div_less)
    then have "excess_bits (n div 2) \<le> j"
      by (rule Suc.IH)
    with False show ?thesis
      by (simp add: excess_bits.simps [of n])
  qed
qed

lemma round_even_le: "round_even n s \<le> n + 2 ^ s div 2"
proof (cases s)
  case 0
  then show ?thesis by (simp add: round_even_def)
next
  case (Suc t)
  define q where "q = n div 2 ^ s"
  define rem where "rem = n mod 2 ^ s"
  define X where "X = q * 2 ^ s"
  define H :: nat where "H = 2 ^ t"
  have n: "n = X + rem"
    by (simp only: X_def q_def rem_def div_mult_mod_eq)
  have p: "(2::nat) ^ s = 2 * H"
    using Suc by (simp add: H_def)
  have up: "(q + 1) * 2 ^ s = X + 2 * H"
    by (simp add: X_def p algebra_simps)
  have r: "round_even n s = (if H < rem \<or> (rem = H \<and> odd q) then q + 1 else q) * 2 ^ s"
    using Suc by (simp add: round_even_def Let_def q_def rem_def H_def)
  have h: "2 ^ s div 2 = H"
    by (simp add: p)
  show ?thesis
  proof (cases "H < rem \<or> (rem = H \<and> odd q)")
    case True
    then have "H \<le> rem" by auto
    with r True up n h show ?thesis by simp
  next
    case False
    with r n h show ?thesis by (simp add: X_def)
  qed
qed

lemma fl_exact: "n < 2 ^ 53 \<Longrightarrow> fl n = n"
  by (simp add: fl_def excess_bits_small round_even_def)

lemma excess_limit: "excess_bits 9007199254740992 = 1"
  by (simp add: excess_bits.simps [of 9007199254740992] excess_bits.simps [of 4503599627370496])

lemma excess_stuck: "excess_bits 9007199254740993 = 1"
  by (simp add: excess_bits.simps [of 9007199254740993] excess_bits.simps [of 4503599627370496])

lemma fl_limit: "fl 9007199254740992 = 9007199254740992"
  by (simp add: fl_def round_even_def Let_def excess_limit)

lemma fl_stuck: "fl 9007199254740993 = 9007199254740992"
  by (simp add: fl_def round_even_def Let_def excess_stuck)

lemma fl_increment: "c < 2 ^ 53 \<Longrightarrow> fl (c + 1) = c + 1"
proof (cases "c + 1 < 2 ^ 53")
  case True
  then show ?thesis by (rule fl_exact)
next
  case False
  assume "c < 2 ^ 53"
  with False have "c + 1 = 9007199254740992" by simp
  then show ?thesis by (simp only: fl_limit)
qed

lemma fl_times_50:
  assumes "m < 2 ^ 53"
  shows "fl (m * 50) \<le> m * 50 + 32"
proof -
  have "(2::nat) ^ (53 + 6) = 2 ^ 53 * 64"
    by (simp add: power_add)
  with assms have "m * 50 < 2 ^ (53 + 6)"
    by simp
  then have s: "excess_bits (m * 50) \<le> 6"
    by (rule excess_bits_le)
  then have "(2::nat) ^ excess_bits (m * 50) \<le> 2 ^ 6"
    by (intro power_increasing) simp_all
  then have "(2::nat) ^ excess_bits (m * 50) div 2 \<le> 32"
    by simp
  with round_even_le [of "m * 50" "excess_bits (m * 50)"] show ?thesis
    by (simp add: fl_def)
qed

lemma risk_value_range:
  assumes "valid_unit r"
  shows "50 \<le> risk_value r \<and> risk_value r \<le> 99"
proof -
  from assms have m: "mantissa r < 2 ^ 53" and k: "53 \<le> scale r"
    by (simp_all add: valid_unit_def)
  from k have "(2::nat) ^ 53 \<le> 2 ^ scale r"
    by (intro power_increasing) simp_all
  with m have "mantissa r + 1 \<le> 2 ^ scale r"
    by simp
  then have "(mantissa r + 1) * 50 \<le> 2 ^ scale r * 50"
    by (rule mult_le_mono1)
  then have "mantissa r * 50 + 32 < 50 * 2 ^ scale r"
    by (simp add: algebra_simps)
  with fl_times_50 [OF m] have "fl (mantissa r * 50) < 50 * 2 ^ scale r"
    by simp
  then have "fl (mantissa r * 50) div 2 ^ scale r < 50"
    by (rule less_mult_imp_div_less)
  then show ?thesis
    by (simp add: risk_value_def Math_floor_def js_times_def)
qed

lemma risk_score_shape:
  assumes "valid_unit (random_risk env)"
  shows "\<exists>n. 50 \<le> n \<and> n \<le> 99 \<and>
           ev_riskScore (fst (generateLocalAttack env c)) = dec n @ ''/100'' \<and>
           score_number (ev_riskScore (fst (generateLocalAttack env c))) = dec n"
proof -
  have "ev_riskScore (fst (generateLocalAttack env c))
      = dec (risk_value (random_risk env)) @ ''/100''"
    by (simp add: generateLocalAttack_def Let_def)
  with risk_value_range [OF assms] show ?thesis
    using score_number_dec [of "risk_value (random_risk env)"] by auto
qed

lemma generate_counter:
  "ev_id (fst (generateLocalAttack env c)) = fl (c + 1)"
  "snd (generateLocalAttack env c) = fl (c + 1)"
  by (simp_all add: generateLocalAttack_def Let_def)

lemma generate_two_ids:
  "map ev_id (fst (generate_all [e1, e2] c)) = [fl (c + 1), fl (fl (c + 1) + 1)]"
  by (simp add: case_prod_beta generate_counter)

lemma generate_all_ids:
  "c + length envs \<le> 2 ^ 53 \<Longrightarrow>
   map ev_id (fst (generate_all envs c)) = [Suc c ..< Suc c + length envs] \<and>
   snd (generate_all envs c) = c + length envs"
proof (induction envs arbitrary: c)
  case Nil
  then show ?case by simp
next
  case (Cons env envs)
  from Cons.prems have c: "c < 2 ^ 53" and rest: "Suc c + length envs \<le> 2 ^ 53"
    by simp_all
  obtain ev c' where g: "generateLocalAttack env c = (ev, c')"
    by (cases "generateLocalAttack env c")
  with generate_counter [of env c] fl_increment [OF c] have ev: "ev_id ev = Suc c" "c' = Suc c"
    by simp_all
  obtain evs c'' where ga: "generate_all envs c' = (evs, c'')"
    by (cases "generate_all envs c'")
  with Cons.IH [of c'] ev rest have ih: "map ev_id evs = [Suc c' ..< Suc c' + length envs]"
    "c'' = c' + length envs"
    by simp_all
  have "[Suc c ..< Suc c + length (env # envs)]
      = Suc c # [Suc (Suc c) ..< Suc (Suc c) + length envs]"
    by (simp add: upt_rec [of "Suc c"] del: upt_Suc)
  with g ga ev ih show ?case
    by (simp del: upt_Suc)
qed

lemma generate_all_scores:
  "list_all (\<lambda>e. valid_unit (random_risk e)) envs \<Longrightarrow>
   list_all (\<lambda>ev. \<exists>n. 50 \<le> n \<and> n \<le> 99 \<and> ev_riskScore ev = dec n @ ''/100'')
     (fst (generate_all envs c))"
proof (induction envs arbitrary: c)
  case Nil
  then show ?case by simp
next
  case (Cons env envs)
  from Cons.prems have u: "valid_unit (random_risk env)"
    and rest: "list_all (\<lambda>e. valid_unit (random_risk e)) envs"
    by simp_all
  from risk_score_shape [OF u, of c]
  have here: "\<exists>n. 50 \<le> n \<and> n \<le> 99 \<and>
      ev_riskScore (fst (generateLocalAttack env c)) = dec n @ ''/100''"
    by blast
  obtain ev c' where g: "generateLocalAttack env c = (ev, c')"
    by (cases "generateLocalAttack env c")
  obtain evs c'' where ga: "generate_all envs c' = (evs, c'')"
    by (cases "generate_all envs c'")
  from Cons.IH [OF rest, of c'] here g ga show ?case
    by simp
qed

text \<open>
  At the counter \<open>2 ^ 53\<close> the increment no longer changes the counter: two successive
  calls return the same identifier.
\<close>

theorem generate_ids_counterexample:
  "map ev_id (fst (generate_all
      [\<lparr>random_hex = ''0.8c3f2a91b7'', now_string = ''1762041600123'',
        random_method = \<lparr>mantissa = 1, scale = 53\<rparr>, random_value = \<lparr>mantissa = 1, scale = 53\<rparr>,
        random_risk = \<lparr>mantissa = 1, scale = 53\<rparr>, time_string = ''10:15:00 AM''\<rparr>,
       \<lparr>random_hex = ''0.41d07be5'', now_string = ''1762041600456'',
        random_method = \<lparr>mantissa = 1, scale = 53\<rparr>, random_value = \<lparr>mantissa = 1, scale = 53\<rparr>,
        random_risk = \<lparr>mantissa = 1, scale = 53\<rparr>, time_string = ''10:15:01 AM''\<rparr>]
      9007199254740992))
   = [9007199254740992, 9007199254740992] \<and>
   (9007199254740992 :: nat) = 2 ^ 53"
proof -
  have stuck: "fl (9007199254740992 + 1) = 9007199254740992"
    using fl_stuck by simp
  show ?thesis
    by (simp only: generate_two_ids stuck) simp
qed

text \<open>
  C7, as amended. Whenever \<^verbatim>\<open>Math.random()\<close> returns a double in \<open>[0, 1)\<close>, the score of the
  generated event is the decimal rendering of a number between 50 and 99, followed by
  \<^verbatim>\<open>/100\<close>: the product with 50 is rounded to a double and stays below 50. While the
  counter is below \<open>2 ^ 53\<close>, a call returns the counter plus one as its identifier and
  stores it; so \<open>N\<close> successive calls that do not take the counter beyond \<open>2 ^ 53\<close> return
  the \<open>N\<close> identifiers that follow the counter, strictly increasing and distinct.
\<close>

theorem generate_scores_and_ids:
  "(valid_unit (random_risk env) \<longrightarrow>
      (\<exists>n. 50 \<le> n \<and> n \<le> 99 \<and>
         ev_riskScore (fst (generateLocalAttack env c)) = dec n @ ''/100'' \<and>
         score_number (ev_riskScore (fst (generateLocalAttack env c))) = dec n)) \<and>
   (c < 2 ^ 53 \<longrightarrow>
      ev_id (fst (generateLocalAttack env c)) = c + 1 \<and>
      snd (generateLocalAttack env c) = c + 1) \<and>
   (c + length envs \<le> 2 ^ 53 \<longrightarrow>
      length (fst (generate_all envs c)) = length envs \<and>
      map ev_id (fst (generate_all envs c)) = [Suc c ..< Suc c + length envs] \<and>
      sorted_wrt (<) (map ev_id (fst (generate_all envs c))) \<and>
      distinct (map ev_id (fst (generate_all envs c)))) \<and>
   (list_all (\<lambda>e. valid_unit (random_risk e)) envs \<longrightarrow>
      list_all (\<lambda>ev. \<exists>n. 50 \<le> n \<and> n \<le> 99 \<and> ev_riskScore ev = dec n @ ''/100'')
        (fst (generate_all envs c)))"
proof -
  have one: "c < 2 ^ 53 \<longrightarrow>
      ev_id (fst (generateLocalAttack env c)) = c + 1 \<and>
      snd (generateLocalAttack env c) = c + 1"
    using fl_increment [of c] by (simp add: generate_counter)
  have many: "c + length envs \<le> 2 ^ 53 \<longrightarrow>
      length (fst (generate_all envs c)) = length envs \<and>
      map ev_id (fst (generate_all envs c)) = [Suc c ..< Suc c + length envs] \<and>
      sorted_wrt (<) (map ev_id (fst (generate_all envs c))) \<and>
      distinct (map ev_id (fst (generate_all envs c)))"
  proof
    assume bound: "c + length envs \<le> 2 ^ 53"
    have ids: "map ev_id (fst (generate_all envs c)) = [Suc c ..< Suc c + length envs]"
      using generate_all_ids [OF bound] by simp
    have "length (map ev_id (fst (generate_all envs c))) = length envs"
      unfolding ids by (simp del: upt_Suc)
    then have len: "length (fst (generate_all envs c)) = length envs"
      by simp
    have srt: "sorted_wrt (<) (map ev_id (fst (generate_all envs c)))"
      unfolding ids by (rule sorted_wrt_upt)
    have dst: "distinct (map ev_id (fst (generate_all envs c)))"
      unfolding ids by (rule distinct_upt)
    from len ids srt dst
    show "length (fst (generate_all envs c)) = length envs \<and>
      map ev_id (fst (generate_all envs c)) = [Suc c ..< Suc c + length envs] \<and>
      sorted_wrt (<) (map ev_id (fst (generate_all envs c))) \<and>
      distinct (map ev_id (fst (generate_all envs c)))"
      by blast
  qed
  from one many risk_score_shape [of env c] generate_all_scores [of envs c]
  show ?thesis by blast
qed

text \<open>
  The double nearest to 0.06 is \<open>8646911284551352 / 2 ^ 57\<close>, just below 0.06; its product
  with 50 rounds to 3, and the score is \<^verbatim>\<open>53/100\<close>.
\<close>

lemma risk_of_sample: "risk_value \<lparr>mantissa = 8646911284551352, scale = 57\<rparr> = 53"
proof -
  have e: "excess_bits 432345564227567600 = 6"
    by (simp add: excess_bits.simps [of 432345564227567600]
        excess_bits.simps [of 216172782113783800] excess_bits.simps [of 108086391056891900]
        excess_bits.simps [of 54043195528445950] excess_bits.simps [of 27021597764222975]
        excess_bits.simps [of 13510798882111487] excess_bits.simps [of 6755399441055743])
  show ?thesis
    by (simp add: risk_value_def Math_floor_def js_times_def fl_def round_even_def Let_def e)
qed

lemma dec_53: "dec 53 = ''53''"
  by code_simp

theorem generate_scores_and_ids_witness:
  "valid_unit \<lparr>mantissa = 8646911284551352, scale = 57\<rparr> \<and>
   (\<exists>n. 50 \<le> n \<and> n \<le> 99 \<and>
      ev_riskScore (fst (generateLocalAttack
        \<lparr>random_hex = ''0.8c3f2a91b7'', now_string = ''1762041600123'',
         random_method = \<lparr>mantissa = 1, scale = 53\<rparr>,
         random_value = \<lparr>mantissa = 1, scale = 53\<rparr>,
         random_risk = \<lparr>mantissa = 8646911284551352, scale = 57\<rparr>,
         time_string = ''10:15:00 AM''\<rparr> 0))
      = dec n @ ''/100'') \<and>
   ev_riskScore (fst (generateLocalAttack
        \<lparr>random_hex = ''0.8c3f2a91b7'', now_string = ''1762041600123'',
         random_method = \<lparr>mantissa = 1, scale = 53\<rparr>,
         random_value = \<lparr>mantissa = 1, scale = 53\<rparr>,
         random_risk = \<lparr>mantissa = 8646911284551352, scale = 57\<rparr>,
         time_string = ''10:15:00 AM''\<rparr> 0))
     = ''53/100'' \<and>
   map ev_id (fst (generate_all
      [\<lparr>random_hex = ''0.8c3f2a91b7'', now_string = ''1762041600123'',
        random_method = \<lparr>mantissa = 1, scale = 53\<rparr>,
        random_value = \<lparr>mantissa = 1, scale = 53\<rparr>,
        random_risk = \<lparr>mantissa = 8646911284551352, scale = 57\<rparr>,
        time_string = ''10:15:00 AM''\<rparr>,
       \<lparr>random_hex = ''0.8c3f2a91b7'', now_string = ''1762041600123'',
        random_method = \<lparr>mantissa = 1, scale = 53\<rparr>,
        random_value = \<lparr>mantissa = 1, scale = 53\<rparr>,
        random_risk = \<lparr>mantissa = 8646911284551352, scale = 57\<rparr>,
        time_string = ''10:15:00 AM''\<rparr>] 0)) = [1, 2]"
proof -
  define env where "env =
        \<lparr>random_hex = ''0.8c3f2a91b7'', now_string = ''1762041600123'',
         random_method = \<lparr>mantissa = 1, scale = 53\<rparr>,
         random_value = \<lparr>mantissa = 1, scale = 53\<rparr>,
         random_risk = \<lparr>mantissa = 8646911284551352, scale = 57\<rparr>,
         time_string = ''10:15:00 AM''\<rparr>"
  have u: "valid_unit \<lparr>mantissa = 8646911284551352, scale = 57\<rparr>"
    by (simp add: valid_unit_def)
  have v: "valid_unit (random_risk env)"
    using u by (simp add: env_def)
  have b: "0 + length [env, env] \<le> (2::nat) ^ 53"
    by simp
  have e: "ev_riskScore (fst (generateLocalAttack env 0)) = ''53/100''"
    by (simp add: generateLocalAttack_def Let_def risk_of_sample dec_53 env_def)
  note inst = generate_scores_and_ids [of env 0 "[env, env]"]
  from inst v
  have x: "\<exists>n. 50 \<le> n \<and> n \<le> 99 \<and>
      ev_riskScore (fst (generateLocalAttack env 0)) = dec n @ ''/100''"
    by blast
  from inst b
  have "map ev_id (fst (generate_all [env, env] 0)) = [Suc 0 ..< Suc 0 + length [env, env]]"
    by blast
  then have y: "map ev_id (fst (generate_all [env, env] 0)) = [1, 2]"
    by (simp add: upt_rec numeral_2_eq_2)
  from u x e y show ?thesis
    unfolding env_def by blast
qed

subsection \<open>Status message of a session\<close>

lemma greeted_new:
  "greeted_once \<lparr>socket_id = k, online = True,
     received = [(''STATUS'', StatusMessage status_message)]\<rparr>"
  by (simp add: greeted_once_def status_count_def)

lemma greeted_offline: "greeted_once (c\<lparr>online := b\<rparr>) = greeted_once c"
  by (simp add: greeted_once_def status_count_def)

lemma greeted_attack:
  "greeted_once c \<Longrightarrow> greeted_once (c\<lparr>received := received c @ [(''new_attack'', p)]\<rparr>)"
  by (auto simp: greeted_once_def status_count_def)

lemma on_connection_greeted:
  "list_all greeted_once (clients s) \<Longrightarrow> list_all greeted_once (clients (on_connection s))"
  by (simp add: on_connection_def greeted_new)

lemma on_disconnect_greeted:
  "list_all greeted_once (clients s) \<Longrightarrow> list_all greeted_once (clients (on_disconnect sid s))"
  by (auto simp: on_disconnect_def list_all_iff greeted_offline)

lemma broadcast_greeted:
  "list_all greeted_once (clients s) \<Longrightarrow> list_all greeted_once (clients (broadcastAttack env s))"
  by (auto simp: broadcastAttack_def io_emit_def list_all_iff greeted_attack split: prod.splits)

lemma protect_clients: "clients (snd (protect random16 fault now req_body s)) = clients s"
  by (simp add: protect_def Let_def split: prod.splits sum.splits callback.splits)

lemma step_greeted:
  "list_all greeted_once (clients s) \<Longrightarrow> list_all greeted_once (clients (step r s))"
  by (cases r)
     (simp_all add: step_def on_connection_greeted on_disconnect_greeted broadcast_greeted
       trigger_attack_def protect_clients)

lemma run_greeted:
  "list_all greeted_once (clients s) \<Longrightarrow> list_all greeted_once (clients (run rs s))"
  by (induction rs arbitrary: s) (simp_all add: step_greeted)

lemma startup_clients: "clients (startup argv disk open_error create_fault) = []"
  by (simp add: startup_def initDb_def Let_def split: prod.splits callback.splits)

text \<open>
  C9. A new connection adds one session whose only received event is the status
  message, built from the protection flag. In every state the server reaches, every
  session has received the status message first and exactly one \<^verbatim>\<open>STATUS\<close> event.
\<close>

theorem status_sent_once:
  "list_all greeted_once (clients (run rs (startup argv disk open_error create_fault))) \<and>
   clients (on_connection s) = clients s @
     [\<lparr>socket_id = next_socket s, online = True,
       received = [(''STATUS'', StatusMessage status_message)]\<rparr>] \<and>
   status_message =
     ''Connected to MEV-Shield server. Private Mempool Status: Active (private mempool).''"
proof -
  have "list_all greeted_once (clients (startup argv disk open_error create_fault))"
    by (simp add: startup_clients)
  then have a: "list_all greeted_once (clients (run rs (startup argv disk open_error create_fault)))"
    by (rule run_greeted)
  have b: "clients (on_connection s) = clients s @
     [\<lparr>socket_id = next_socket s, online = True,
       received = [(''STATUS'', StatusMessage status_message)]\<rparr>]"
    by (simp add: on_connection_def)
  have c: "status_message =
     ''Connected to MEV-Shield server. Private Mempool Status: Active (private mempool).''"
    by (simp add: status_message_def PRIVATE_MEMPOOL_ENABLED_def)
  from a b c show ?thesis by blast
qed

theorem status_sent_once_witness:
  "map status_count (clients (run [Connection, TriggerAttack
        \<lparr>random_hex = ''0.8c3f2a91b7'', now_string = ''1762041600123'', random_method = \<lparr>mantissa = 1, scale = 55\<rparr>,
         random_value = \<lparr>mantissa = 1, scale = 53\<rparr>,
         random_risk = \<lparr>mantissa = 1, scale = 54\<rparr>, time_string = ''10:15:00 AM''\<rparr>,
        Connection, Disconnect 0, TriggerAttack
        \<lparr>random_hex = ''0.41d07be5'', now_string = ''1762041600456'', random_method = \<lparr>mantissa = 3, scale = 55\<rparr>,
         random_value = \<lparr>mantissa = 1, scale = 53\<rparr>,
         random_risk = \<lparr>mantissa = 1, scale = 54\<rparr>, time_string = ''10:15:01 AM''\<rparr>]
      (startup [] empty_disk None None))) = [1, 1] \<and>
   map (length \<circ> received) (clients (run [Connection, TriggerAttack
        \<lparr>random_hex = ''0.8c3f2a91b7'', now_string = ''1762041600123'', random_method = \<lparr>mantissa = 1, scale = 55\<rparr>,
         random_value = \<lparr>mantissa = 1, scale = 53\<rparr>,
         random_risk = \<lparr>mantissa = 1, scale = 54\<rparr>, time_string = ''10:15:00 AM''\<rparr>,
        Connection, Disconnect 0, TriggerAttack
        \<lparr>random_hex = ''0.41d07be5'', now_string = ''1762041600456'', random_method = \<lparr>mantissa = 3, scale = 55\<rparr>,
         random_value = \<lparr>mantissa = 1, scale = 53\<rparr>,
         random_risk = \<lparr>mantissa = 1, scale = 54\<rparr>, time_string = ''10:15:01 AM''\<rparr>]
      (startup [] empty_disk None None))) = [2, 2]"
proof -
  have lens: "map (length \<circ> received) (clients (run [Connection, TriggerAttack
        \<lparr>random_hex = ''0.8c3f2a91b7'', now_string = ''1762041600123'', random_method = \<lparr>mantissa = 1, scale = 55\<rparr>,
         random_value = \<lparr>mantissa = 1, scale = 53\<rparr>,
         random_risk = \<lparr>mantissa = 1, scale = 54\<rparr>, time_string = ''10:15:00 AM''\<rparr>,
        Connection, Disconnect 0, TriggerAttack
        \<lparr>random_hex = ''0.41d07be5'', now_string = ''1762041600456'', random_method = \<lparr>mantissa = 3, scale = 55\<rparr>,
         random_value = \<lparr>mantissa = 1, scale = 53\<rparr>,
         random_risk = \<lparr>mantissa = 1, scale = 54\<rparr>, time_string = ''10:15:01 AM''\<rparr>]
      (startup [] empty_disk None None))) = [2, 2]"
    by (simp add: step_def startup_def initDb_def exec_create_def open_database_def
        empty_disk_def Let_def on_connection_def on_disconnect_def trigger_attack_def
        broadcastAttack_def io_emit_def split: prod.splits callback.splits)
  then have two: "length (clients (run [Connection, TriggerAttack
        \<lparr>random_hex = ''0.8c3f2a91b7'', now_string = ''1762041600123'', random_method = \<lparr>mantissa = 1, scale = 55\<rparr>,
         random_value = \<lparr>mantissa = 1, scale = 53\<rparr>,
         random_risk = \<lparr>mantissa = 1, scale = 54\<rparr>, time_string = ''10:15:00 AM''\<rparr>,
        Connection, Disconnect 0, TriggerAttack
        \<lparr>random_hex = ''0.41d07be5'', now_string = ''1762041600456'', random_method = \<lparr>mantissa = 3, scale = 55\<rparr>,
         random_value = \<lparr>mantissa = 1, scale = 53\<rparr>,
         random_risk = \<lparr>mantissa = 1, scale = 54\<rparr>, time_string = ''10:15:01 AM''\<rparr>]
      (startup [] empty_disk None None))) = 2"
    using length_map [of "length \<circ> received"] by (metis length_Cons list.size(3) numeral_2_eq_2)
  from status_sent_once [of "[Connection, TriggerAttack
        \<lparr>random_hex = ''0.8c3f2a91b7'', now_string = ''1762041600123'', random_method = \<lparr>mantissa = 1, scale = 55\<rparr>,
         random_value = \<lparr>mantissa = 1, scale = 53\<rparr>,
         random_risk = \<lparr>mantissa = 1, scale = 54\<rparr>, time_string = ''10:15:00 AM''\<rparr>,
        Connection, Disconnect 0, TriggerAttack
        \<lparr>random_hex = ''0.41d07be5'', now_string = ''1762041600456'', random_method = \<lparr>mantissa = 3, scale = 55\<rparr>,
         random_value = \<lparr>mantissa = 1, scale = 53\<rparr>,
         random_risk = \<lparr>mantissa = 1, scale = 54\<rparr>, time_string = ''10:15:01 AM''\<rparr>]"
      "[]" empty_disk None None]
  have "\<forall>c \<in> set (clients (run [Connection, TriggerAttack
        \<lparr>random_hex = ''0.8c3f2a91b7'', now_string = ''1762041600123'', random_method = \<lparr>mantissa = 1, scale = 55\<rparr>,
         random_value = \<lparr>mantissa = 1, scale = 53\<rparr>,
         random_risk = \<lparr>mantissa = 1, scale = 54\<rparr>, time_string = ''10:15:00 AM''\<rparr>,
        Connection, Disconnect 0, TriggerAttack
        \<lparr>random_hex = ''0.41d07be5'', now_string = ''1762041600456'', random_method = \<lparr>mantissa = 3, scale = 55\<rparr>,
         random_value = \<lparr>mantissa = 1, scale = 53\<rparr>,
         random_risk = \<lparr>mantissa = 1, scale = 54\<rparr>, time_string = ''10:15:01 AM''\<rparr>]
      (startup [] empty_disk None None))). status_count c = 1"
    by (simp add: list_all_iff greeted_once_def)
  then have "map status_count (clients (run [Connection, TriggerAttack
        \<lparr>random_hex = ''0.8c3f2a91b7'', now_string = ''1762041600123'', random_method = \<lparr>mantissa = 1, scale = 55\<rparr>,
         random_value = \<lparr>mantissa = 1, scale = 53\<rparr>,
         random_risk = \<lparr>mantissa = 1, scale = 54\<rparr>, time_string = ''10:15:00 AM''\<rparr>,
        Connection, Disconnect 0, TriggerAttack
        \<lparr>random_hex = ''0.41d07be5'', now_string = ''1762041600456'', random_method = \<lparr>mantissa = 3, scale = 55\<rparr>,
         random_value = \<lparr>mantissa = 1, scale = 53\<rparr>,
         random_risk = \<lparr>mantissa = 1, scale = 54\<rparr>, time_string = ''10:15:01 AM''\<rparr>]
      (startup [] empty_disk None None)))
    = replicate (length (clients (run [Connection, TriggerAttack
        \<lparr>random_hex = ''0.8c3f2a91b7'', now_string = ''1762041600123'', random_method = \<lparr>mantissa = 1, scale = 55\<rparr>,
         random_value = \<lparr>mantissa = 1, scale = 53\<rparr>,
         random_risk = \<lparr>mantissa = 1, scale = 54\<rparr>, time_string = ''10:15:00 AM''\<rparr>,
        Connection, Disconnect 0, TriggerAttack
        \<lparr>random_hex = ''0.41d07be5'', now_string = ''1762041600456'', random_method = \<lparr>mantissa = 3, scale = 55\<rparr>,
         random_value = \<lparr>mantissa = 1, scale = 53\<rparr>,
         random_risk = \<lparr>mantissa = 1, scale = 54\<rparr>, time_string = ''10:15:01 AM''\<rparr>]
      (startup [] empty_disk None None)))) 1"
    by (simp add: map_replicate_const [symmetric] cong: map_cong)
  with two lens show ?thesis
    by (simp add: numeral_2_eq_2)
qed

end
